theory Spec2Isabelle
  imports Main "HOL-Library.Sublist"
begin

section \<open>Python string operations used by deep\_crawler.py\<close>

text \<open>
  A Python \<open>str\<close> is modelled as the list of bytes of its UTF-8 encoding
  (\<^typ>\<open>string\<close>). Every operation below searches for ASCII characters only
  (\<open>/\<close>, \<open>.\<close>, \<open>:\<close>, \<open>www.\<close>), and an ASCII byte never occurs inside a
  multi-byte UTF-8 sequence, so the operations act on the bytes as Python's act on the
  code points.
\<close>

text \<open>\<open>s.strip(chars)\<close>: drop leading and trailing characters that occur in \<open>chars\<close>.\<close>

definition str_strip :: "string \<Rightarrow> string \<Rightarrow> string" where
  "str_strip chars s =
     rev (dropWhile (\<lambda>c. c \<in> set chars) (rev (dropWhile (\<lambda>c. c \<in> set chars) s)))"

text \<open>
  \<open>s.replace(old, new)\<close>: every non-overlapping occurrence of \<open>old\<close>, leftmost
  first. With an empty \<open>old\<close> Python puts \<open>new\<close> before every character and at the end.
\<close>

function str_replace :: "string \<Rightarrow> string \<Rightarrow> string \<Rightarrow> string" where
  "str_replace old new [] = (if old = [] then new else [])"
| "str_replace old new (c # cs) =
     (if old = [] then new @ c # str_replace old new cs
      else if prefix old (c # cs) then new @ str_replace old new (drop (length old) (c # cs))
      else c # str_replace old new cs)"
  by pat_completeness auto
termination
  by (relation "measure (\<lambda>(old, new, s). length s)") auto

text \<open>
  \<open>s.split(sep)\<close> for a one-character separator, which is how the source calls it
  (\<open>split('.')\<close>, \<open>split(':')\<close>). The result is never empty.
\<close>

fun str_split :: "char \<Rightarrow> string \<Rightarrow> string list" where
  "str_split sep [] = [[]]"
| "str_split sep (c # cs) =
     (if c = sep then [] # str_split sep cs
      else (case str_split sep cs of
              [] \<Rightarrow> [[c]]
            | w # ws \<Rightarrow> (c # w) # ws))"

section \<open>Filename slug (process\_urls, lines 377--388)\<close>

text \<open>
  \<^verbatim>\<open>
  path = parsed_url.path.strip('/')
  if path:
      slug = path.replace('/', '_')
  else:
      slug = "index"
  slug = slug.split('.')[0]  # Remove file extensions like .html
  filename = f"{slug}.md"
  \<close>
\<close>

definition slug_of_path :: "string \<Rightarrow> string" where
  "slug_of_path p =
     (let path = str_strip ''/'' p;
          slug = (if path \<noteq> [] then str_replace ''/'' ''_'' path else ''index'')
      in hd (str_split CHR ''.'' slug))"

definition filename_of_path :: "string \<Rightarrow> string" where
  "filename_of_path p = slug_of_path p @ ''.md''"

text \<open>\<open>sep.join(xs)\<close>.\<close>

fun str_join :: "string \<Rightarrow> string list \<Rightarrow> string" where
  "str_join sep [] = []"
| "str_join sep [x] = x"
| "str_join sep (x # y # ys) = x @ sep @ str_join sep (y # ys)"

text \<open>\<open>str(n)\<close> for a non-negative integer: its decimal digits.\<close>

definition digit_char :: "nat \<Rightarrow> char" where
  "digit_char d = char_of (of_char CHR ''0'' + d)"

function str_nat :: "nat \<Rightarrow> string" where
  "str_nat n = (if n < 10 then [digit_char n] else str_nat (n div 10) @ [digit_char (n mod 10)])"
  by pat_completeness auto
termination
  by (relation "measure id") auto

declare str_nat.simps [simp del]

section \<open>Python values and exceptions\<close>

text \<open>
  The values \<open>json.load\<close> can return and \<open>json.dump\<close> can write, floats apart:
  \<open>None\<close>, booleans, integers, strings, lists and dictionaries with string keys (in
  insertion order).
\<close>

datatype pyval =
    PNone
  | PBool bool
  | PInt int
  | PStr string
  | PList "pyval list"
  | PDict "(string \<times> pyval) list"

text \<open>
  Exceptions derived from \<open>Exception\<close>, which is what the handlers of the source catch:
  \<open>subprocess.CalledProcessError\<close> (with \<open>str(e)\<close>), and any other class (with its name
  and \<open>str(e)\<close>). \<open>KeyboardInterrupt\<close> and \<open>SystemExit\<close> derive from \<open>BaseException\<close> only
  and are outside the model.
\<close>

datatype exn = CalledProcessError string | Exception string string

fun exn_str :: "exn \<Rightarrow> string" where
  "exn_str (CalledProcessError m) = m"
| "exn_str (Exception cls m) = m"

fun type_name :: "pyval \<Rightarrow> string" where
  "type_name PNone = ''NoneType''"
| "type_name (PBool b) = ''bool''"
| "type_name (PInt i) = ''int''"
| "type_name (PStr s) = ''str''"
| "type_name (PList xs) = ''list''"
| "type_name (PDict d) = ''dict''"

text \<open>Truth value of an object, as \<open>if results:\<close> tests it.\<close>

fun py_truthy :: "pyval \<Rightarrow> bool" where
  "py_truthy PNone = False"
| "py_truthy (PBool b) = b"
| "py_truthy (PInt i) = (i \<noteq> 0)"
| "py_truthy (PStr s) = (s \<noteq> [])"
| "py_truthy (PList xs) = (xs \<noteq> [])"
| "py_truthy (PDict d) = (d \<noteq> [])"

text \<open>
  A string is held as UTF-8 bytes; its characters (code points) are the groups made of a
  leading byte and the continuation bytes \<open>0x80..0xBF\<close> that follow it.
\<close>

definition is_continuation :: "char \<Rightarrow> bool" where
  "is_continuation c = (128 \<le> (of_char c :: nat) \<and> (of_char c :: nat) < 192)"

fun codepoints :: "string \<Rightarrow> string list" where
  "codepoints [] = []"
| "codepoints (c # cs) =
     (case codepoints cs of
        [] \<Rightarrow> [[c]]
      | g # gs \<Rightarrow> if is_continuation (hd g) then (c # g) # gs else [c] # g # gs)"

definition quote :: "string \<Rightarrow> string" where
  "quote s = [CHR 0x27] @ s @ [CHR 0x27]"

definition not_subscriptable :: "pyval \<Rightarrow> exn" where
  "not_subscriptable v =
     Exception ''TypeError'' (quote (type_name v) @ '' object is not subscriptable'')"

text \<open>\<open>v[key]\<close> with a string key, as in \<open>result['url']\<close>.\<close>

fun py_item :: "pyval \<Rightarrow> string \<Rightarrow> exn + pyval" where
  "py_item (PDict d) key =
     (case map_of d key of Some v \<Rightarrow> Inr v | None \<Rightarrow> Inl (Exception ''KeyError'' (quote key)))"
| "py_item (PList xs) key =
     Inl (Exception ''TypeError'' ''list indices must be integers or slices, not str'')"
| "py_item (PStr s) key =
     Inl (Exception ''TypeError'' (''string indices must be integers, not '' @ quote ''str''))"
| "py_item v key = Inl (not_subscriptable v)"

text \<open>\<open>v[0]\<close>, as in \<open>results[0]\<close>. A dictionary read from JSON has string keys only.\<close>

fun py_index0 :: "pyval \<Rightarrow> exn + pyval" where
  "py_index0 (PList []) = Inl (Exception ''IndexError'' ''list index out of range'')"
| "py_index0 (PList (x # xs)) = Inr x"
| "py_index0 (PDict d) = Inl (Exception ''KeyError'' ''0'')"
| "py_index0 (PStr s) =
     (case codepoints s of
        [] \<Rightarrow> Inl (Exception ''IndexError'' ''string index out of range'')
      | g # gs \<Rightarrow> Inr (PStr g))"
| "py_index0 v = Inl (not_subscriptable v)"

text \<open>\<open>len(v)\<close>.\<close>

fun py_len :: "pyval \<Rightarrow> exn + nat" where
  "py_len (PList xs) = Inr (length xs)"
| "py_len (PDict d) = Inr (length d)"
| "py_len (PStr s) = Inr (length (codepoints s))"
| "py_len v =
     Inl (Exception ''TypeError'' (''object of type '' @ quote (type_name v) @ '' has no len()''))"

text \<open>The items a \<open>for\<close> loop over \<open>v\<close> visits: a dictionary yields its keys.\<close>

fun py_iter :: "pyval \<Rightarrow> exn + pyval list" where
  "py_iter (PList xs) = Inr xs"
| "py_iter (PDict d) = Inr (map (\<lambda>kv. PStr (fst kv)) d)"
| "py_iter (PStr s) = Inr (map PStr (codepoints s))"
| "py_iter v =
     Inl (Exception ''TypeError'' (quote (type_name v) @ '' object is not iterable''))"

section \<open>urllib.parse.urlparse\<close>

text \<open>
  \<open>urlparse\<close> belongs to the standard library, not to this repository. The model of
  \<open>process_urls\<close> takes it as a parameter \<open>up\<close>: a function from the URL text to the two
  fields the source reads, or to the exception it raises (\<open>ValueError\<close> on unbalanced
  IPv6 brackets, for example).
\<close>

record parse_result =
  netloc :: string
  path :: string

type_synonym urlparser = "string \<Rightarrow> exn + parse_result"

text \<open>
  \<open>urlparse(url)\<close> followed by a string method on a field of the result, for a \<open>url\<close>
  that came out of JSON. For anything but a \<open>str\<close> one of the two raises: an object that
  is true has no \<open>decode\<close>; one that is false is parsed as empty bytes, on which
  \<open>strip('/')\<close> and \<open>replace("www.", "")\<close> refuse a \<open>str\<close> argument.
\<close>

definition py_urlparse :: "urlparser \<Rightarrow> pyval \<Rightarrow> exn + (string \<times> parse_result)" where
  "py_urlparse up v =
     (case v of
        PStr u \<Rightarrow> (case up u of Inl e \<Rightarrow> Inl e | Inr parsed \<Rightarrow> Inr (u, parsed))
      | _ \<Rightarrow>
          if py_truthy v
          then Inl (Exception ''AttributeError''
                 (quote (type_name v) @ '' object has no attribute '' @ quote ''decode''))
          else Inl (Exception ''TypeError''
                 (''a bytes-like object is required, not '' @ quote ''str'')))"

text \<open>
  A transcription of CPython 3.11's \<open>urlsplit\<close> and \<open>urlparse\<close>, used where a
  concrete parser is needed. It leaves out \<open>_checknetloc\<close> and
  \<open>_check_bracketed_host\<close>, which only reject some hosts with non-ASCII characters or
  brackets.
\<close>

definition scheme_chars :: string where
  "scheme_chars =
     ''abcdefghijklmnopqrstuvwxyz'' @ ''ABCDEFGHIJKLMNOPQRSTUVWXYZ'' @ ''0123456789'' @ ''+-.''"

definition uses_params :: "string list" where
  "uses_params =
     ['''', ''ftp'', ''hdl'', ''prospero'', ''http'', ''imap'', ''https'', ''shttp'', ''rtsp'',
      ''rtspu'', ''sip'', ''sips'', ''mms'', ''sftp'', ''tel'']"

definition is_ascii_alpha :: "char \<Rightarrow> bool" where
  "is_ascii_alpha c =
     (c \<in> set (''abcdefghijklmnopqrstuvwxyz'' @ ''ABCDEFGHIJKLMNOPQRSTUVWXYZ''))"

definition lower_char :: "char \<Rightarrow> char" where
  "lower_char c =
     (if c \<in> set ''ABCDEFGHIJKLMNOPQRSTUVWXYZ'' then char_of (of_char c + (32 :: nat)) else c)"

text \<open>The scheme and what follows it (\<open>urlsplit\<close>, the \<open>for ... else\<close> over \<open>url[:i]\<close>).\<close>

definition split_scheme :: "string \<Rightarrow> string \<times> string" where
  "split_scheme url =
     (let i = length (takeWhile (\<lambda>c. c \<noteq> CHR '':'') url)
      in if CHR '':'' \<in> set url \<and> 0 < i \<and> is_ascii_alpha (hd url)
            \<and> list_all (\<lambda>c. c \<in> set scheme_chars) (take i url)
         then (map lower_char (take i url), drop (i + 1) url)
         else ('''', url))"

text \<open>\<open>_splitnetloc(url, 2)\<close>: the netloc ends at the first of \<open>/\<close>, \<open>?\<close>, \<open>#\<close>.\<close>

definition splitnetloc :: "string \<Rightarrow> string \<times> string" where
  "splitnetloc url =
     (takeWhile (\<lambda>c. c \<notin> set ''/?#'') (drop 2 url),
      dropWhile (\<lambda>c. c \<notin> set ''/?#'') (drop 2 url))"

text \<open>\<open>_splitparams(url)[0]\<close>, called when \<open>;\<close> occurs in \<open>url\<close>.\<close>

definition splitparams :: "string \<Rightarrow> string" where
  "splitparams url =
     (let k = (if CHR ''/'' \<in> set url
               then length url - 1 - length (takeWhile (\<lambda>c. c \<noteq> CHR ''/'') (rev url))
               else 0)
      in if CHR '';'' \<in> set (drop k url)
         then take k url @ takeWhile (\<lambda>c. c \<noteq> CHR '';'') (drop k url)
         else url)"

definition urlparse :: urlparser where
  "urlparse url0 =
     (let url1 = dropWhile (\<lambda>c. (of_char c :: nat) \<le> 32) url0;
          url2 = filter (\<lambda>c. c \<notin> set [CHR 0x09, CHR 0x0D, CHR 0x0A]) url1;
          (scheme, url3) = split_scheme url2;
          (nl, url4) = (if take 2 url3 = ''//'' then splitnetloc url3 else ('''', url3))
      in if (CHR ''['' \<in> set nl \<and> CHR '']'' \<notin> set nl) \<or> (CHR '']'' \<in> set nl \<and> CHR ''['' \<notin> set nl)
         then Inl (Exception ''ValueError'' ''Invalid IPv6 URL'')
         else
           (let url5 = takeWhile (\<lambda>c. c \<noteq> CHR ''#'') url4;
                url6 = takeWhile (\<lambda>c. c \<noteq> CHR ''?'') url5;
                url7 = (if scheme \<in> set uses_params \<and> CHR '';'' \<in> set url6
                        then splitparams url6 else url6)
            in Inr \<lparr>netloc = nl, path = url7\<rparr>))"

section \<open>Paths and the file system\<close>

text \<open>
  A \<open>pathlib.Path\<close> (POSIX flavour) is held as the list of its parts; an absolute path
  starts with the part \<open>/\<close>. Parsing a string drops empty and \<open>.\<close> components. The
  special root \<open>//\<close> of POSIX paths is not modelled.
\<close>

definition path_parts :: "string \<Rightarrow> string list" where
  "path_parts s =
     (if s \<noteq> [] \<and> hd s = CHR ''/'' then [''/''] else [])
     @ filter (\<lambda>p. p \<noteq> [] \<and> p \<noteq> ''.'') (str_split CHR ''/'' s)"

text \<open>\<open>p / s\<close>: an absolute right operand replaces the left one.\<close>

definition path_join :: "string list \<Rightarrow> string \<Rightarrow> string list" where
  "path_join p s = (if s \<noteq> [] \<and> hd s = CHR ''/'' then path_parts s else p @ path_parts s)"

text \<open>\<open>str(p)\<close>.\<close>

definition path_str :: "string list \<Rightarrow> string" where
  "path_str p =
     (case p of
        [] \<Rightarrow> ''.''
      | r # rest \<Rightarrow> if r = ''/'' then ''/'' @ str_join ''/'' rest else str_join ''/'' p)"

text \<open>
  The world the script acts on: the directories and the regular files (with their
  bytes) of the file system, the lines printed so far, the commands handed to
  \<open>subprocess.run\<close> so far, oldest first, the current directory (absolute), and the
  encoding that \<open>open\<close> uses when it is given none
  (\<open>locale.getpreferredencoding(False)\<close>). Relative paths are relative to the current
  directory, which is the path \<open>[]\<close>. What the converter itself writes is not modelled.
\<close>

datatype encoding = UTF_8 | Latin_1 | CP_1252

record world =
  dirs :: "string list set"
  files :: "string list \<rightharpoonup> string"
  printed :: "string list"
  invoked :: "string list list"
  cwd :: "string list"
  preferred_encoding :: encoding

definition py_print :: "string \<Rightarrow> world \<Rightarrow> world" where
  "py_print line w = w\<lparr>printed := printed w @ [line]\<rparr>"

text \<open>
  \<open>p.mkdir(parents=True, exist_ok=True)\<close>: creates \<open>p\<close> and its missing ancestors;
  accepts an existing directory; raises when \<open>p\<close> or an ancestor is a regular file.
  Permissions are not modelled.
\<close>

definition mkdir_parents :: "string list \<Rightarrow> world \<Rightarrow> exn + world" where
  "mkdir_parents p w =
     (if files w p \<noteq> None
      then Inl (Exception ''FileExistsError''
             (''[Errno 17] File exists: '' @ quote (path_str p)))
      else if list_ex (\<lambda>q. files w q \<noteq> None) (prefixes p)
      then Inl (Exception ''NotADirectoryError''
             (''[Errno 20] Not a directory: '' @ quote (path_str p)))
      else Inr (w\<lparr>dirs := dirs w \<union> set (prefixes p)\<rparr>))"

section \<open>process\_urls\<close>

text \<open>
  \<open>subprocess.run(cmd, check=True)\<close> is the outside world: a function from the number
  of the invocation (counted from 0) and the command to \<open>None\<close>, when the converter
  ran and exited with status 0, or to the exception raised (\<open>CalledProcessError\<close> for a
  non-zero status, any other exception otherwise, \<open>FileNotFoundError\<close> when \<open>crwl\<close>
  is not installed for example). The call blocks until the converter has finished.
\<close>

type_synonym runner = "nat \<Rightarrow> string list \<Rightarrow> exn option"

definition check_mark :: string where
  "check_mark = [CHR 0xE2, CHR 0x9C, CHR 0x93]"

definition cross_mark :: string where
  "cross_mark = [CHR 0xE2, CHR 0x9C, CHR 0x97]"

text \<open>\<open>netloc.replace("www.", "").split(':')[0]\<close> (lines 351 and 357).\<close>

definition domain_of_netloc :: "string \<Rightarrow> string" where
  "domain_of_netloc n = hd (str_split CHR '':'' (str_replace ''www.'' '''' n))"

text \<open>
  Lines 348--351: the domain of the source URL; \<open>None\<close> when no source URL is given or
  it is empty.
\<close>

definition source_domain :: "urlparser \<Rightarrow> string option \<Rightarrow> exn + string option" where
  "source_domain up source_url =
     (case source_url of
        None \<Rightarrow> Inr None
      | Some s \<Rightarrow>
          if s = [] then Inr None
          else (case up s of
                  Inl e \<Rightarrow> Inl e
                | Inr parsed_source \<Rightarrow> Inr (Some (domain_of_netloc (netloc parsed_source)))))"

text \<open>
  Lines 353--357: without a domain (\<open>None\<close> or empty) and with results, the domain of
  the first result's URL.
\<close>

definition fallback_domain :: "urlparser \<Rightarrow> string option \<Rightarrow> pyval \<Rightarrow> exn + string option" where
  "fallback_domain up domain results =
     (if (domain = None \<or> domain = Some []) \<and> py_truthy results
      then (case py_index0 results of
              Inl e \<Rightarrow> Inl e
            | Inr first \<Rightarrow>
               (case py_item first ''url'' of
                  Inl e \<Rightarrow> Inl e
                | Inr first_url \<Rightarrow>
                   (case py_urlparse up first_url of
                      Inl e \<Rightarrow> Inl e
                    | Inr (u, parsed_first) \<Rightarrow>
                        Inr (Some (domain_of_netloc (netloc parsed_first))))))
      else Inr domain)"

text \<open>Lines 360--362: the output directory.\<close>

definition output_dir_of :: "string \<Rightarrow> string option \<Rightarrow> string list" where
  "output_dir_of markdown_dir domain =
     (case domain of
        None \<Rightarrow> path_parts markdown_dir
      | Some d \<Rightarrow> if d \<noteq> [] then path_join (path_parts markdown_dir) d
                  else path_parts markdown_dir)"

text \<open>Lines 347--362 together: the output directory, or the exception raised on the way.\<close>

definition select_output_dir ::
  "urlparser \<Rightarrow> string option \<Rightarrow> pyval \<Rightarrow> string \<Rightarrow> exn + string list" where
  "select_output_dir up source_url results markdown_dir =
     (case source_domain up source_url of
        Inl e \<Rightarrow> Inl e
      | Inr domain0 \<Rightarrow>
         (case fallback_domain up domain0 results of
            Inl e \<Rightarrow> Inl e
          | Inr domain \<Rightarrow> Inr (output_dir_of markdown_dir domain)))"

text \<open>Lines 395--400: the command for one URL.\<close>

definition crwl_command :: "string \<Rightarrow> string \<Rightarrow> string list \<Rightarrow> string list" where
  "crwl_command url output_format output_path =
     [''crwl'', ''crawl'', url, ''-o'', output_format, ''-O'', path_str output_path]"

record loop_state =
  processed_count :: nat
  error_count :: nat
  world_of :: world

text \<open>
  One iteration of the loop (lines 374--412) for the item number \<open>i\<close> of \<open>n\<close>. An
  exception raised before the \<open>try\<close> (by \<open>result['url']\<close> or by \<open>urlparse\<close>) leaves
  the loop; one raised by \<open>subprocess.run\<close> is counted and printed.
\<close>

definition process_one ::
  "urlparser \<Rightarrow> runner \<Rightarrow> string \<Rightarrow> string list \<Rightarrow> nat \<Rightarrow> nat \<Rightarrow> pyval \<Rightarrow> loop_state
     \<Rightarrow> exn + loop_state" where
  "process_one up run output_format output_dir n i result st =
     (case py_item result ''url'' of
        Inl e \<Rightarrow> Inl e
      | Inr url_value \<Rightarrow>
         (case py_urlparse up url_value of
            Inl e \<Rightarrow> Inl e
          | Inr (url, parsed_url) \<Rightarrow>
             (let filename = filename_of_path (path parsed_url);
                  output_path = path_join output_dir filename;
                  w1 = py_print (''Processing '' @ str_nat (i + 1) @ ''/'' @ str_nat n @ '': '' @ url)
                         (world_of st);
                  cmd = crwl_command url output_format output_path;
                  w2 = w1\<lparr>invoked := invoked w1 @ [cmd]\<rparr>
              in (case run (length (invoked w1)) cmd of
                    None \<Rightarrow>
                      Inr (st\<lparr>processed_count := processed_count st + 1,
                              world_of := py_print (''  '' @ check_mark @ '' Created ''
                                            @ path_str output_path) w2\<rparr>)
                  | Some (CalledProcessError m) \<Rightarrow>
                      Inr (st\<lparr>error_count := error_count st + 1,
                              world_of := py_print (''  '' @ cross_mark @ '' Error processing ''
                                            @ url @ '': '' @ m) w2\<rparr>)
                  | Some (Exception cls m) \<Rightarrow>
                      Inr (st\<lparr>error_count := error_count st + 1,
                              world_of := py_print (''  '' @ cross_mark @ '' Unexpected error: ''
                                            @ m) w2\<rparr>)))))"

text \<open>
  The \<open>for\<close> loop over \<open>enumerate(results)\<close>. The state reached is returned also when
  an exception leaves the loop, since what was printed and run before stays done.
\<close>

fun process_loop ::
  "urlparser \<Rightarrow> runner \<Rightarrow> string \<Rightarrow> string list \<Rightarrow> nat \<Rightarrow> nat \<Rightarrow> pyval list \<Rightarrow> loop_state
     \<Rightarrow> exn option \<times> loop_state" where
  "process_loop up run output_format output_dir n i [] st = (None, st)"
| "process_loop up run output_format output_dir n i (result # rest) st =
     (case process_one up run output_format output_dir n i result st of
        Inl e \<Rightarrow> (Some e, st)
      | Inr st' \<Rightarrow> process_loop up run output_format output_dir n (Suc i) rest st')"

text \<open>Line 415: the summary.\<close>

definition summary_line :: "loop_state \<Rightarrow> string" where
  "summary_line st =
     [CHR 0x0A] @ ''Processing complete: '' @ str_nat (processed_count st)
       @ '' created, '' @ str_nat (error_count st) @ '' errors''"

text \<open>
  Lines 347--415: \<open>process_urls\<close> from the loaded \<open>results\<close> on. The result is the
  exception that left the function, if any, and the world then.
\<close>

definition process_results ::
  "urlparser \<Rightarrow> runner \<Rightarrow> pyval \<Rightarrow> string option \<Rightarrow> string \<Rightarrow> string \<Rightarrow> world
     \<Rightarrow> exn option \<times> world" where
  "process_results up run results source_url output_format markdown_dir w =
     (case select_output_dir up source_url results markdown_dir of
        Inl e \<Rightarrow> (Some e, w)
      | Inr output_dir \<Rightarrow>
     (case mkdir_parents output_dir w of
        Inl e \<Rightarrow> (Some e, w)
      | Inr w1 \<Rightarrow>
     (case py_len results of
        Inl e \<Rightarrow> (Some e, w1)
      | Inr n \<Rightarrow>
     (let w2 = py_print (''Found '' @ str_nat n @ '' URLs to process'') w1;
          w3 = py_print (''Output directory: '' @ path_str output_dir) w2
      in (case py_iter results of
            Inl e \<Rightarrow> (Some e, w3)
          | Inr items \<Rightarrow>
     (case process_loop up run output_format output_dir n 0 items
             \<lparr>processed_count = 0, error_count = 0, world_of = w3\<rparr> of
        (Some e, st) \<Rightarrow> (Some e, world_of st)
      | (None, st) \<Rightarrow> (None, py_print (summary_line st) (world_of st))))))))"

section \<open>JSON text: json.dump and json.load\<close>

text \<open>
  The two functions belong to the standard library; they are transcribed from CPython
  3.11 for the arguments the source passes (\<open>indent=2, ensure_ascii=False\<close> for
  \<open>json.dump\<close>, the defaults for \<open>json.load\<close>). Left out: numbers that are not
  integers (a text holding one is refused as not modelled), the position at the end of
  an error message, and the limits on nesting depth and on the number of digits of an
  integer.
\<close>

definition str_int :: "int \<Rightarrow> string" where
  "str_int i = (if i < 0 then ''-'' @ str_nat (nat (- i)) else str_nat (nat i))"

definition hex_digit :: "nat \<Rightarrow> char" where
  "hex_digit d = (if d < 10 then digit_char d else char_of (of_char CHR ''a'' + (d - 10)))"

text \<open>
  \<open>encode_basestring\<close>: the replacement of a character inside a JSON string. With
  \<open>ensure_ascii=False\<close> only the quote, the backslash and the control characters are
  escaped; all other bytes are written as they are.
\<close>

definition escape_char :: "char \<Rightarrow> string" where
  "escape_char c =
     (if c = CHR 0x22 then [CHR 0x5C, CHR 0x22]
      else if c = CHR 0x5C then [CHR 0x5C, CHR 0x5C]
      else if c = CHR 0x0A then [CHR 0x5C, CHR ''n'']
      else if c = CHR 0x0D then [CHR 0x5C, CHR ''r'']
      else if c = CHR 0x09 then [CHR 0x5C, CHR ''t'']
      else if c = CHR 0x08 then [CHR 0x5C, CHR ''b'']
      else if c = CHR 0x0C then [CHR 0x5C, CHR ''f'']
      else if (of_char c :: nat) < 32
        then [CHR 0x5C, CHR ''u'', CHR ''0'', CHR ''0'',
              hex_digit (of_char c div 16), hex_digit (of_char c mod 16)]
      else [c])"

definition encode_basestring :: "string \<Rightarrow> string" where
  "encode_basestring s = [CHR 0x22] @ concat (map escape_char s) @ [CHR 0x22]"

text \<open>A line break followed by the indentation of a nesting level (two spaces each).\<close>

definition newline_indent :: "nat \<Rightarrow> string" where
  "newline_indent level = CHR 0x0A # replicate (2 * level) CHR '' ''"

text \<open>
  \<open>_iterencode\<close> at a nesting level: the items of a list or dictionary stand on lines
  of their own, separated by a comma; an empty list is \<open>[]\<close>, an empty dictionary
  \<open>{}\<close>.
\<close>

fun json_encode :: "nat \<Rightarrow> pyval \<Rightarrow> string" where
  "json_encode level PNone = ''null''"
| "json_encode level (PBool b) = (if b then ''true'' else ''false'')"
| "json_encode level (PInt i) = str_int i"
| "json_encode level (PStr s) = encode_basestring s"
| "json_encode level (PList xs) =
     (if xs = [] then ''[]''
      else ''['' @ newline_indent (Suc level)
           @ str_join ('','' @ newline_indent (Suc level)) (map (json_encode (Suc level)) xs)
           @ newline_indent level @ '']'')"
| "json_encode level (PDict d) =
     (if d = [] then ''{}''
      else ''{'' @ newline_indent (Suc level)
           @ str_join ('','' @ newline_indent (Suc level))
               (map (\<lambda>kv. encode_basestring (fst kv) @ '': '' @ json_encode (Suc level) (snd kv)) d)
           @ newline_indent level @ ''}'')"

definition json_dumps :: "pyval \<Rightarrow> string" where
  "json_dumps v = json_encode 0 v"

text \<open>The decoder.\<close>

definition json_error :: "string \<Rightarrow> exn" where
  "json_error msg = Exception ''JSONDecodeError'' msg"

definition whitespace :: string where
  "whitespace = [CHR '' '', CHR 0x09, CHR 0x0A, CHR 0x0D]"

definition skip_ws :: "string \<Rightarrow> string" where
  "skip_ws s = dropWhile (\<lambda>c. c \<in> set whitespace) s"

text \<open>A code point as UTF-8 bytes (\<open>chr(uni)\<close> in the representation of strings).\<close>

definition utf8_encode :: "nat \<Rightarrow> string" where
  "utf8_encode cp =
     (if cp < 0x80 then [char_of cp]
      else if cp < 0x800 then [char_of (0xC0 + cp div 64), char_of (0x80 + cp mod 64)]
      else if cp < 0x10000
        then [char_of (0xE0 + cp div 4096), char_of (0x80 + cp div 64 mod 64),
              char_of (0x80 + cp mod 64)]
      else [char_of (0xF0 + cp div 262144), char_of (0x80 + cp div 4096 mod 64),
            char_of (0x80 + cp div 64 mod 64), char_of (0x80 + cp mod 64)])"

definition hex_val :: "char \<Rightarrow> nat option" where
  "hex_val c =
     (if c \<in> set ''0123456789'' then Some (of_char c - 48)
      else if c \<in> set ''abcdef'' then Some (of_char c - 87)
      else if c \<in> set ''ABCDEF'' then Some (of_char c - 55)
      else None)"

text \<open>\<open>_decode_uXXXX\<close>: the value of the four hexadecimal digits a text starts with.\<close>

definition decode_uXXXX :: "string \<Rightarrow> nat option" where
  "decode_uXXXX s =
     (case s of
        a # b # c # d # r \<Rightarrow>
          (case (hex_val a, hex_val b, hex_val c, hex_val d) of
             (Some x, Some y, Some z, Some t) \<Rightarrow> Some (((x * 16 + y) * 16 + z) * 16 + t)
           | _ \<Rightarrow> None)
      | _ \<Rightarrow> None)"

text \<open>The table \<open>BACKSLASH\<close> of the one-letter escapes.\<close>

definition unescape :: "char \<Rightarrow> char option" where
  "unescape e =
     (if e = CHR 0x22 then Some (CHR 0x22)
      else if e = CHR 0x5C then Some (CHR 0x5C)
      else if e = CHR ''/'' then Some (CHR ''/'')
      else if e = CHR ''b'' then Some (CHR 0x08)
      else if e = CHR ''f'' then Some (CHR 0x0C)
      else if e = CHR ''n'' then Some (CHR 0x0A)
      else if e = CHR ''r'' then Some (CHR 0x0D)
      else if e = CHR ''t'' then Some (CHR 0x09)
      else None)"

definition invalid_uXXXX :: exn where
  "invalid_uXXXX = json_error (''Invalid '' @ [CHR 0x5C] @ ''uXXXX escape'')"

definition invalid_escape :: exn where
  "invalid_escape = json_error (''Invalid '' @ [CHR 0x5C] @ ''escape'')"

definition expecting_comma :: exn where
  "expecting_comma = json_error (''Expecting '' @ quote '','' @ '' delimiter'')"

definition expecting_colon :: exn where
  "expecting_colon = json_error (''Expecting '' @ quote '':'' @ '' delimiter'')"

definition prepend :: "string \<Rightarrow> exn + string \<times> string \<Rightarrow> exn + string \<times> string" where
  "prepend pre res = (case res of Inl e \<Rightarrow> Inl e | Inr (t, rest) \<Rightarrow> Inr (pre @ t, rest))"

text \<open>
  \<open>scanstring\<close> (strict), from the character after the opening quote: the string read
  and the text after its closing quote.
\<close>

function scanstring :: "string \<Rightarrow> exn + string \<times> string" where
  "scanstring [] = Inl (json_error ''Unterminated string starting at'')"
| "scanstring (c # cs) =
     (if c = CHR 0x22 then Inr ([], cs)
      else if c = CHR 0x5C then
        (case cs of
           [] \<Rightarrow> Inl (json_error ''Unterminated string starting at'')
         | esc # r \<Rightarrow>
             if esc = CHR ''u'' then
               (case decode_uXXXX r of
                  None \<Rightarrow> Inl invalid_uXXXX
                | Some uni \<Rightarrow>
                    if 0xD800 \<le> uni \<and> uni \<le> 0xDBFF \<and> take 2 (drop 4 r) = [CHR 0x5C, CHR ''u'']
                    then (case decode_uXXXX (drop 6 r) of
                            None \<Rightarrow> Inl invalid_uXXXX
                          | Some uni2 \<Rightarrow>
                              if 0xDC00 \<le> uni2 \<and> uni2 \<le> 0xDFFF
                              then prepend
                                     (utf8_encode (0x10000 + (uni - 0xD800) * 1024 + (uni2 - 0xDC00)))
                                     (scanstring (drop 10 r))
                              else prepend (utf8_encode uni) (scanstring (drop 4 r)))
                    else prepend (utf8_encode uni) (scanstring (drop 4 r)))
             else (case unescape esc of
                     None \<Rightarrow> Inl invalid_escape
                   | Some ch \<Rightarrow> prepend [ch] (scanstring r)))
      else if (of_char c :: nat) < 32 then Inl (json_error ''Invalid control character at'')
      else prepend [c] (scanstring cs))"
  by pat_completeness auto
termination
  by (relation "measure length") auto

text \<open>
  \<open>NUMBER_RE\<close>, its first group: an optional minus sign, then \<open>0\<close> or a digit other
  than \<open>0\<close> followed by digits. The result is the matched text and what follows it.
\<close>

definition is_digit :: "char \<Rightarrow> bool" where
  "is_digit c = (c \<in> set ''0123456789'')"

definition match_integer :: "string \<Rightarrow> (string \<times> string) option" where
  "match_integer s =
     (let sign = (if s \<noteq> [] \<and> hd s = CHR ''-'' then ''-'' else '''');
          s1 = drop (length sign) s
      in case s1 of
           [] \<Rightarrow> None
         | d # r \<Rightarrow>
             if d = CHR ''0'' then Some (sign @ ''0'', r)
             else if is_digit d then Some (sign @ d # takeWhile is_digit r, dropWhile is_digit r)
             else None)"

text \<open>Whether a fraction or an exponent follows the integer: the number is then a float.\<close>

definition has_frac :: "string \<Rightarrow> bool" where
  "has_frac r = (case r of c # d # r' \<Rightarrow> c = CHR ''.'' \<and> is_digit d | _ \<Rightarrow> False)"

definition has_exp :: "string \<Rightarrow> bool" where
  "has_exp r =
     (case r of
        [] \<Rightarrow> False
      | e # r1 \<Rightarrow>
          (e = CHR ''e'' \<or> e = CHR ''E'') \<and>
          (case r1 of
             [] \<Rightarrow> False
           | s # r2 \<Rightarrow>
               is_digit s \<or> ((s = CHR ''+'' \<or> s = CHR ''-'') \<and> r2 \<noteq> [] \<and> is_digit (hd r2))))"

definition nat_of_digits :: "string \<Rightarrow> nat" where
  "nat_of_digits ds = foldl (\<lambda>n c. 10 * n + (of_char c - 48)) 0 ds"

text \<open>\<open>int(text)\<close> for a text matched by \<open>match_integer\<close>.\<close>

definition parse_int :: "string \<Rightarrow> int" where
  "parse_int t =
     (if t \<noteq> [] \<and> hd t = CHR ''-'' then - int (nat_of_digits (tl t)) else int (nat_of_digits t))"

definition not_modelled :: exn where
  "not_modelled = Exception ''NotModelled'' ''a JSON number that is not an integer''"

text \<open>
  \<open>dict(pairs)\<close>: a key that comes again keeps its place and takes the later value.
\<close>

fun dict_set :: "string \<Rightarrow> pyval \<Rightarrow> (string \<times> pyval) list \<Rightarrow> (string \<times> pyval) list" where
  "dict_set k v [] = [(k, v)]"
| "dict_set k v (kv # d) = (if fst kv = k then (k, v) # d else kv # dict_set k v d)"

definition dict_of_pairs :: "(string \<times> pyval) list \<Rightarrow> (string \<times> pyval) list" where
  "dict_of_pairs pairs = foldl (\<lambda>d kv. dict_set (fst kv) (snd kv) d) [] pairs"

text \<open>
  \<open>scan_once\<close>, \<open>JSONArray\<close> after its first value is due and \<open>JSONObject\<close> after the
  quote that opens a key, on the text that remains. The first argument bounds the
  number of nested calls; \<open>json_loads\<close> starts with the length of the text, and every
  call consumes a character. The values and pairs read so far are kept in reverse.
\<close>

fun scan_once :: "nat \<Rightarrow> string \<Rightarrow> exn + pyval \<times> string"
  and parse_array :: "nat \<Rightarrow> pyval list \<Rightarrow> string \<Rightarrow> exn + pyval \<times> string"
  and parse_object :: "nat \<Rightarrow> (string \<times> pyval) list \<Rightarrow> string \<Rightarrow> exn + pyval \<times> string"
where
  "scan_once 0 s = Inl (Exception ''RecursionError'' ''maximum recursion depth exceeded'')"
| "scan_once (Suc n) s =
     (case s of
        [] \<Rightarrow> Inl (json_error ''Expecting value'')
      | c # r \<Rightarrow>
          if c = CHR 0x22 then
            (case scanstring r of Inl e \<Rightarrow> Inl e | Inr (t, rest) \<Rightarrow> Inr (PStr t, rest))
          else if c = CHR ''{'' then
            (case skip_ws r of
               [] \<Rightarrow> Inl (json_error ''Expecting property name enclosed in double quotes'')
             | c1 # r1 \<Rightarrow>
                 if c1 = CHR ''}'' then Inr (PDict [], r1)
                 else if c1 = CHR 0x22 then parse_object n [] r1
                 else Inl (json_error ''Expecting property name enclosed in double quotes''))
          else if c = CHR ''['' then
            (case skip_ws r of
               [] \<Rightarrow> Inl (json_error ''Expecting value'')
             | c1 # r1 \<Rightarrow>
                 if c1 = CHR '']'' then Inr (PList [], r1) else parse_array n [] (c1 # r1))
          else if take 4 s = ''null'' then Inr (PNone, drop 4 s)
          else if take 4 s = ''true'' then Inr (PBool True, drop 4 s)
          else if take 5 s = ''false'' then Inr (PBool False, drop 5 s)
          else
            (case match_integer s of
               Some (t, rest) \<Rightarrow>
                 if has_frac rest \<or> has_exp rest then Inl not_modelled
                 else Inr (PInt (parse_int t), rest)
             | None \<Rightarrow>
                 if take 3 s = ''NaN'' \<or> take 8 s = ''Infinity'' \<or> take 9 s = ''-Infinity''
                 then Inl not_modelled
                 else Inl (json_error ''Expecting value'')))"
| "parse_array 0 acc s = Inl (Exception ''RecursionError'' ''maximum recursion depth exceeded'')"
| "parse_array (Suc n) acc s =
     (case scan_once n s of
        Inl e \<Rightarrow> Inl e
      | Inr (v, r) \<Rightarrow>
          (case skip_ws r of
             [] \<Rightarrow> Inl (expecting_comma)
           | c # r1 \<Rightarrow>
               if c = CHR '']'' then Inr (PList (rev (v # acc)), r1)
               else if c = CHR '','' then parse_array n (v # acc) (skip_ws r1)
               else Inl (expecting_comma)))"
| "parse_object 0 acc s = Inl (Exception ''RecursionError'' ''maximum recursion depth exceeded'')"
| "parse_object (Suc n) acc s =
     (case scanstring s of
        Inl e \<Rightarrow> Inl e
      | Inr (key, r) \<Rightarrow>
          (case skip_ws r of
             [] \<Rightarrow> Inl (expecting_colon)
           | c # r1 \<Rightarrow>
               if c \<noteq> CHR '':'' then Inl (expecting_colon)
               else
                 (case scan_once n (skip_ws r1) of
                    Inl e \<Rightarrow> Inl e
                  | Inr (v, r2) \<Rightarrow>
                      (case skip_ws r2 of
                         [] \<Rightarrow> Inl (expecting_comma)
                       | c2 # r3 \<Rightarrow>
                           if c2 = CHR ''}''
                           then Inr (PDict (dict_of_pairs (rev ((key, v) # acc))), r3)
                           else if c2 = CHR '','' then
                             (case skip_ws r3 of
                                [] \<Rightarrow> Inl (json_error
                                        ''Expecting property name enclosed in double quotes'')
                              | c3 # r4 \<Rightarrow>
                                  if c3 = CHR 0x22 then parse_object n ((key, v) # acc) r4
                                  else Inl (json_error
                                         ''Expecting property name enclosed in double quotes''))
                           else Inl (expecting_comma)))))"

text \<open>
  \<open>json.loads\<close>: a byte order mark is refused; white space may surround the value;
  nothing else may follow it.
\<close>

definition json_loads :: "string \<Rightarrow> exn + pyval" where
  "json_loads s =
     (if take 3 s = [CHR 0xEF, CHR 0xBB, CHR 0xBF]
      then Inl (json_error ''Unexpected UTF-8 BOM (decode using utf-8-sig)'')
      else (case scan_once (Suc (length s)) (skip_ws s) of
              Inl e \<Rightarrow> Inl e
            | Inr (v, rest) \<Rightarrow>
                if skip_ws rest = [] then Inr v else Inl (json_error ''Extra data'')))"

section \<open>Text files\<close>

text \<open>
  A file holds bytes. Text written with \<open>encoding='utf-8'\<close> is stored as it is, since
  a string is held as its UTF-8 bytes. Text read is decoded with the given encoding and
  is again held as UTF-8 bytes. Line ends are not translated (POSIX).
\<close>

definition in_range :: "nat \<Rightarrow> nat \<Rightarrow> char \<Rightarrow> bool" where
  "in_range lo hi c = (lo \<le> (of_char c :: nat) \<and> (of_char c :: nat) \<le> hi)"

text \<open>Well-formed UTF-8, as the strict decoder accepts it.\<close>

function utf8_valid :: "string \<Rightarrow> bool" where
  "utf8_valid [] = True"
| "utf8_valid (b # r) =
     (if in_range 0 0x7F b then utf8_valid r
      else if in_range 0xC2 0xDF b then
        (case r of b1 # r1 \<Rightarrow> in_range 0x80 0xBF b1 \<and> utf8_valid r1 | _ \<Rightarrow> False)
      else if in_range 0xE0 0xEF b then
        (case r of
           b1 # b2 # r2 \<Rightarrow>
             in_range (if b = CHR 0xE0 then 0xA0 else 0x80) (if b = CHR 0xED then 0x9F else 0xBF) b1
             \<and> in_range 0x80 0xBF b2 \<and> utf8_valid r2
         | _ \<Rightarrow> False)
      else if in_range 0xF0 0xF4 b then
        (case r of
           b1 # b2 # b3 # r3 \<Rightarrow>
             in_range (if b = CHR 0xF0 then 0x90 else 0x80) (if b = CHR 0xF4 then 0x8F else 0xBF) b1
             \<and> in_range 0x80 0xBF b2 \<and> in_range 0x80 0xBF b3 \<and> utf8_valid r3
         | _ \<Rightarrow> False)
      else False)"
  by pat_completeness auto
termination
  by (relation "measure length") auto

text \<open>The code points of the bytes \<open>0x80..0x9F\<close> in code page 1252; five are undefined.\<close>

definition cp1252_high :: "nat option list" where
  "cp1252_high =
     [Some 0x20AC, None, Some 0x201A, Some 0x0192,
      Some 0x201E, Some 0x2026, Some 0x2020, Some 0x2021,
      Some 0x02C6, Some 0x2030, Some 0x0160, Some 0x2039,
      Some 0x0152, None, Some 0x017D, None,
      None, Some 0x2018, Some 0x2019, Some 0x201C,
      Some 0x201D, Some 0x2022, Some 0x2013, Some 0x2014,
      Some 0x02DC, Some 0x2122, Some 0x0161, Some 0x203A,
      Some 0x0153, None, Some 0x017E, Some 0x0178]"

definition cp1252_code_point :: "char \<Rightarrow> nat option" where
  "cp1252_code_point b =
     (if in_range 0x80 0x9F b then cp1252_high ! (of_char b - 0x80) else Some (of_char b))"

definition unicode_decode_error :: "string \<Rightarrow> exn" where
  "unicode_decode_error codec =
     Exception ''UnicodeDecodeError'' (quote codec @ '' codec cannot decode byte'')"

definition decode_text :: "encoding \<Rightarrow> string \<Rightarrow> exn + string" where
  "decode_text enc bytes =
     (case enc of
        UTF_8 \<Rightarrow> if utf8_valid bytes then Inr bytes else Inl (unicode_decode_error ''utf-8'')
      | Latin_1 \<Rightarrow> Inr (concat (map (\<lambda>b. utf8_encode (of_char b)) bytes))
      | CP_1252 \<Rightarrow>
          if list_all (\<lambda>b. cp1252_code_point b \<noteq> None) bytes
          then Inr (concat (map (\<lambda>b. utf8_encode (the (cp1252_code_point b))) bytes))
          else Inl (unicode_decode_error ''charmap''))"

text \<open>\<open>p.parent\<close> and \<open>p.absolute()\<close>.\<close>

definition path_parent :: "string list \<Rightarrow> string list" where
  "path_parent p = (if p = [''/''] then p else butlast p)"

definition path_absolute :: "world \<Rightarrow> string list \<Rightarrow> string list" where
  "path_absolute w p = (if p \<noteq> [] \<and> hd p = ''/'' then p else cwd w @ p)"

text \<open>
  \<open>open(p, 'w', encoding='utf-8')\<close>, writing \<open>text\<close> and closing: a directory cannot be
  opened, and the directory of the file has to exist.
\<close>

definition write_text :: "string list \<Rightarrow> string \<Rightarrow> world \<Rightarrow> exn + world" where
  "write_text p text w =
     (if p \<in> dirs w
      then Inl (Exception ''IsADirectoryError'' (''[Errno 21] Is a directory: '' @ quote (path_str p)))
      else if path_parent p \<notin> dirs w
      then Inl (Exception ''FileNotFoundError''
             (''[Errno 2] No such file or directory: '' @ quote (path_str p)))
      else Inr (w\<lparr>files := (files w)(p \<mapsto> text)\<rparr>))"

text \<open>\<open>open(p, 'r')\<close> and \<open>read()\<close>: the bytes decoded with the preferred encoding.\<close>

definition read_text :: "string list \<Rightarrow> world \<Rightarrow> exn + string" where
  "read_text p w =
     (case files w p of
        None \<Rightarrow>
          if p \<in> dirs w
          then Inl (Exception ''IsADirectoryError''
                 (''[Errno 21] Is a directory: '' @ quote (path_str p)))
          else Inl (Exception ''FileNotFoundError''
                 (''[Errno 2] No such file or directory: '' @ quote (path_str p)))
      | Some bytes \<Rightarrow> decode_text (preferred_encoding w) bytes)"

definition path_exists :: "string list \<Rightarrow> world \<Rightarrow> bool" where
  "path_exists p w = (files w p \<noteq> None \<or> p \<in> dirs w)"

section \<open>save\_results, process\_urls, run\_crawler, main\<close>

text \<open>
  \<open>save_results\<close> (lines 314--325): creates the directory of the file, writes the JSON
  text, prints where it was saved and returns the path.
\<close>

definition save_results :: "pyval \<Rightarrow> string \<Rightarrow> world \<Rightarrow> exn + string list \<times> world" where
  "save_results results output_file w =
     (let output_path = path_parts output_file
      in case mkdir_parents (path_parent output_path) w of
           Inl e \<Rightarrow> Inl e
         | Inr w1 \<Rightarrow>
             (case write_text output_path (json_dumps results) w1 of
                Inl e \<Rightarrow> Inl e
              | Inr w2 \<Rightarrow>
                  Inr (output_path,
                       py_print (''Results saved to '' @ path_str (path_absolute w2 output_path)) w2)))"

text \<open>\<open>process_urls\<close> (lines 328--415): loads the results file, then goes on as above.\<close>

definition process_urls ::
  "urlparser \<Rightarrow> runner \<Rightarrow> string \<Rightarrow> string option \<Rightarrow> string \<Rightarrow> string \<Rightarrow> world
     \<Rightarrow> exn option \<times> world" where
  "process_urls up run results_file source_url output_format markdown_dir w =
     (case read_text (path_parts results_file) w of
        Inl e \<Rightarrow> (Some e, w)
      | Inr text \<Rightarrow>
          (case json_loads text of
             Inl e \<Rightarrow> (Some e, w)
           | Inr results \<Rightarrow>
               process_results up run results source_url output_format markdown_dir w))"

text \<open>
  What the crawler library returns for one page, as far as the source reads it: the
  attribute \<open>url\<close> and the dictionary \<open>metadata\<close>.
\<close>

record crawl_result =
  url :: string
  metadata :: "(string \<times> pyval) list"

text \<open>\<open>d.get(key, default)\<close>.\<close>

definition dict_get :: "(string \<times> pyval) list \<Rightarrow> string \<Rightarrow> pyval \<Rightarrow> pyval" where
  "dict_get d key dflt = (case map_of d key of Some v \<Rightarrow> v | None \<Rightarrow> dflt)"

text \<open>Lines 304--308: the record made from one crawl result.\<close>

definition processed_result :: "crawl_result \<Rightarrow> pyval" where
  "processed_result result =
     PDict [(''url'', PStr (url result)),
            (''depth'', dict_get (metadata result) ''depth'' (PInt 0)),
            (''title'', dict_get (metadata result) ''title'' (PStr ''''))]"

text \<open>Lines 302--311: the loop that appends a record for every crawl result.\<close>

fun collect_results :: "pyval list \<Rightarrow> crawl_result list \<Rightarrow> pyval list" where
  "collect_results processed_results [] = processed_results"
| "collect_results processed_results (result # rest) =
     collect_results (processed_results @ [processed_result result]) rest"

text \<open>
  The deep crawl itself (\<open>crawler.arun\<close> with the strategy built from the arguments) is
  the library's: a function from the start URL, the depth and page limits, the flag
  for external links and the keywords to the crawl results or to the exception raised.
\<close>

type_synonym crawler = "string \<Rightarrow> int \<Rightarrow> int \<Rightarrow> bool \<Rightarrow> string list \<Rightarrow> exn + crawl_result list"

text \<open>
  \<open>run_crawler\<close> (lines 262--311), called with \<open>verbose = 0\<close> as \<open>main\<close> does, so that
  nothing is printed.
\<close>

definition run_crawler ::
  "crawler \<Rightarrow> string \<Rightarrow> int \<Rightarrow> int \<Rightarrow> bool \<Rightarrow> string list \<Rightarrow> exn + pyval list" where
  "run_crawler arun start depth_limit page_limit external kws =
     (case arun start depth_limit page_limit external kws of
        Inl e \<Rightarrow> Inl e
      | Inr results \<Rightarrow> Inr (collect_results [] results))"

text \<open>
  The arguments after \<open>parse_arguments\<close> and the interactive prompts; \<open>start_url\<close> is
  \<open>args.url\<close>, \<open>arg_keywords\<close> is \<open>args.keywords\<close> and \<open>arg_output\<close> is
  \<open>args.output\<close>.
\<close>

record args =
  mode :: string
  results_file :: string
  start_url :: "string option"
  max_depth :: int
  max_pages :: int
  arg_keywords :: "string list"
  include_external :: bool
  arg_output :: string

definition DEFAULT_MARKDOWN_DIR :: string where
  "DEFAULT_MARKDOWN_DIR = ''markdown_output''"

definition processing_error_line :: "exn \<Rightarrow> string" where
  "processing_error_line e = ''Error during processing: '' @ exn_str e"

text \<open>
  \<open>main\<close> from line 427 on. The result is the exception that leaves \<open>main\<close>, if any,
  and the world then.
\<close>

definition main :: "urlparser \<Rightarrow> runner \<Rightarrow> crawler \<Rightarrow> args \<Rightarrow> world \<Rightarrow> exn option \<times> world" where
  "main up run arun a w =
     (if mode a = ''process'' then
        (let w1 = py_print (''Processing existing results from: '' @ results_file a) w
         in if \<not> path_exists (path_parts (results_file a)) w1
            then (None, py_print (''Error: Results file not found: '' @ results_file a) w1)
            else (case process_urls up run (results_file a) (start_url a) (arg_output a)
                         DEFAULT_MARKDOWN_DIR w1 of
                    (None, w2) \<Rightarrow>
                      (None, py_print (CHR 0x0A # ''Crawl4AI processing completed successfully!'') w2)
                  | (Some e, w2) \<Rightarrow> (None, py_print (processing_error_line e) w2)))
      else if mode a \<in> {''crawl'', ''both''} \<and> (start_url a = None \<or> start_url a = Some [])
      then (None, py_print ''Error: URL is required for crawling. Please provide a starting URL.'' w)
      else if mode a \<in> {''crawl'', ''both''} then
        (let w1 = py_print (''Starting deep crawl of '' @ the (start_url a)) w;
             w2 = py_print (''Max depth: '' @ str_int (max_depth a) @ '', Max pages: ''
                            @ str_int (max_pages a)) w1
         in case run_crawler arun (the (start_url a)) (max_depth a) (max_pages a)
                   (include_external a) (arg_keywords a) of
              Inl e \<Rightarrow> (None, py_print (processing_error_line e) w2)
            | Inr results \<Rightarrow>
                (let w3 = py_print (''Crawled '' @ str_nat (length results) @ '' pages'') w2
                 in case save_results (PList results) (results_file a) w3 of
                      Inl e \<Rightarrow> (None, py_print (processing_error_line e) w3)
                    | Inr (saved, w4) \<Rightarrow>
                        if mode a = ''both'' \<and> arg_output a \<noteq> ''json'' then
                          (let w5 = py_print (''Processing URLs to '' @ arg_output a @ '' format...'') w4
                           in case process_urls up run (results_file a) (start_url a) (arg_output a)
                                     DEFAULT_MARKDOWN_DIR w5 of
                                (None, w6) \<Rightarrow>
                                  (None, py_print
                                     (CHR 0x0A # ''Crawl4AI process completed successfully!'') w6)
                              | (Some e, w6) \<Rightarrow> (None, py_print (processing_error_line e) w6))
                        else (None, py_print
                                (CHR 0x0A # ''Crawl4AI process completed successfully!'') w4)))
      else (None, py_print (CHR 0x0A # ''Crawl4AI process completed successfully!'') w))"

text \<open>
  The exit status of the script (\<open>asyncio.run(main())\<close> as the last statement): 0 when
  \<open>main\<close> returns, 1 when an exception leaves it.
\<close>

definition exit_status :: "exn option \<times> world \<Rightarrow> nat" where
  "exit_status res = (case fst res of None \<Rightarrow> 0 | Some e \<Rightarrow> 1)"

section \<open>Notions used to state the properties\<close>

text \<open>
  What the loop reads from a result record: the URL text and its parse, when
  \<open>result['url']\<close> is a string that \<open>urlparse\<close> accepts.
\<close>

definition parsed_record :: "urlparser \<Rightarrow> pyval \<Rightarrow> (string \<times> parse_result) option" where
  "parsed_record up r =
     (case py_item r ''url'' of
        Inl e \<Rightarrow> None
      | Inr v \<Rightarrow> (case py_urlparse up v of Inl e \<Rightarrow> None | Inr x \<Rightarrow> Some x))"

text \<open>
  A result record in the sense of the data model: an object with a \<open>url\<close> string
  field, holding a URL that \<open>urlparse\<close> parses.
\<close>

definition well_formed :: "urlparser \<Rightarrow> pyval \<Rightarrow> bool" where
  "well_formed up r = (parsed_record up r \<noteq> None)"

text \<open>The converter command for a record, with the output file inside \<open>output_dir\<close>.\<close>

definition command_for :: "urlparser \<Rightarrow> string \<Rightarrow> string list \<Rightarrow> pyval \<Rightarrow> string list" where
  "command_for up output_format output_dir r =
     (case parsed_record up r of
        None \<Rightarrow> []
      | Some (u, parsed) \<Rightarrow>
          crwl_command u output_format (output_dir @ [filename_of_path (path parsed)]))"

text \<open>
  The line printed when the converter fails on the URL \<open>u\<close> with the exception \<open>e\<close>
  (lines 409 and 412).
\<close>

definition failure_line :: "string \<Rightarrow> exn \<Rightarrow> string" where
  "failure_line u e =
     (case e of
        CalledProcessError m \<Rightarrow> ''  '' @ cross_mark @ '' Error processing '' @ u @ '': '' @ m
      | Exception cls m \<Rightarrow> ''  '' @ cross_mark @ '' Unexpected error: '' @ m)"

text \<open>
  The number of commands of \<open>cmds\<close> on which the converter fails, when the first of
  them is the invocation number \<open>base\<close>.
\<close>

definition failures :: "runner \<Rightarrow> nat \<Rightarrow> string list list \<Rightarrow> nat" where
  "failures run base cmds =
     length (filter (\<lambda>k. run (base + k) (cmds ! k) \<noteq> None) [0..<length cmds])"

text \<open>
  The final component of the path a command gives after \<open>-O\<close> (its last argument):
  the name of the output file.
\<close>

definition output_filename :: "string list \<Rightarrow> string" where
  "output_filename cmd = last (str_split CHR ''/'' (last cmd))"

text \<open>
  The filename as the specification words it: the path with its slashes replaced by
  underscores and the file extension stripped (the part of the last segment from its
  last dot on), then \<open>.md\<close>; nothing else of the path is removed. Leading and trailing
  slashes are dropped and an empty path gives \<open>index\<close>, as in the source.
\<close>

definition strip_extension :: "string \<Rightarrow> string" where
  "strip_extension seg =
     (if CHR ''.'' \<in> set seg then rev (drop 1 (dropWhile (\<lambda>c. c \<noteq> CHR ''.'') (rev seg)))
      else seg)"

definition spec_filename_of_path :: "string \<Rightarrow> string" where
  "spec_filename_of_path p =
     (let stripped = str_strip ''/'' p;
          segments = str_split CHR ''/'' stripped
      in if stripped = [] then ''index.md''
         else str_join ''_'' (butlast segments @ [strip_extension (last segments)]) @ ''.md'')"

text \<open>The world of \<open>main\<close> when the crawl has returned \<open>n\<close> records (lines 455--469).\<close>

definition after_crawl :: "args \<Rightarrow> nat \<Rightarrow> world \<Rightarrow> world" where
  "after_crawl a n w =
     py_print (''Crawled '' @ str_nat n @ '' pages'')
       (py_print (''Max depth: '' @ str_int (max_depth a) @ '', Max pages: ''
                  @ str_int (max_pages a))
          (py_print (''Starting deep crawl of '' @ the (start_url a)) w))"

section \<open>Sample inputs\<close>

definition sample_world :: world where
  "sample_world =
     \<lparr>dirs = {[]}, files = Map.empty, printed = [], invoked = [],
      cwd = [''/'', ''home'', ''user''], preferred_encoding = UTF_8\<rparr>"

definition sample_results :: "pyval list" where
  "sample_results =
     [PDict [(''url'', PStr ''https://www.example.com/docs/v1.2/intro.html''),
             (''depth'', PInt 1), (''title'', PStr ''Intro'')],
      PDict [(''url'', PStr ''https://www.example.com/''),
             (''depth'', PInt 0), (''title'', PStr ''Home'')]]"

text \<open>A converter that fails on its first invocation only, and one that never fails.\<close>

definition first_fails :: runner where
  "first_fails i cmd =
     (if i = 0 then Some (CalledProcessError ''returned non-zero exit status 1'') else None)"

definition always_succeeds :: runner where
  "always_succeeds i cmd = None"

text \<open>
  A world whose results file does not hold JSON, the arguments of a run in process
  mode and of a run that crawls and processes, a crawler that fails and one that finds
  two pages.
\<close>

definition broken_world :: world where
  "broken_world = sample_world\<lparr>files := [[''results.json''] \<mapsto> ''not json'']\<rparr>"

definition process_args :: args where
  "process_args =
     \<lparr>mode = ''process'', results_file = ''results.json'', start_url = None, max_depth = 2,
      max_pages = 50, arg_keywords = [], include_external = False, arg_output = ''md-fit''\<rparr>"

definition both_args :: args where
  "both_args =
     \<lparr>mode = ''both'', results_file = ''results.json'',
      start_url = Some ''https://www.example.com/'', max_depth = 2,
      max_pages = 50, arg_keywords = [], include_external = False, arg_output = ''md-fit''\<rparr>"

definition failing_crawler :: crawler where
  "failing_crawler start d p ext kws = Inl (Exception ''RuntimeError'' ''browser did not start'')"

definition sample_crawler :: crawler where
  "sample_crawler start d p ext kws =
     Inr [\<lparr>url = ''https://www.example.com/'',
           metadata = [(''depth'', PInt 0), (''title'', PStr ''Home''), (''score'', PInt 1)]\<rparr>,
          \<lparr>url = ''https://www.example.com/docs/v1.2/intro.html'', metadata = []\<rparr>]"

section \<open>Facts about the string operations\<close>

lemma str_replace_char:
  "str_replace [a] [b] s = map (\<lambda>c. if c = a then b else c) s"
  by (induction s) auto

lemma str_split_nonempty: "str_split sep s \<noteq> []"
  by (induction s) (auto split: list.splits)

lemma hd_str_split: "hd (str_split sep s) = takeWhile (\<lambda>c. c \<noteq> sep) s"
  by (induction s) (auto split: list.splits simp: str_split_nonempty)

lemma str_split_absent: "sep \<notin> set s \<Longrightarrow> str_split sep s = [s]"
  by (induction s) (auto split: list.splits)

lemma takeWhile_absent: "c \<notin> set xs \<Longrightarrow> c \<notin> set (takeWhile P xs)"
  by (auto dest: set_takeWhileD)

lemma slug_of_path_alt:
  "slug_of_path p =
     takeWhile (\<lambda>c. c \<noteq> CHR ''.'')
       (if str_strip ''/'' p = [] then ''index''
        else map (\<lambda>c. if c = CHR ''/'' then CHR ''_'' else c) (str_strip ''/'' p))"
  by (cases "str_strip ''/'' p = []")
     (simp_all only: slug_of_path_def Let_def hd_str_split str_replace_char simp_thms if_True if_False)

lemma slug_no_slash: "CHR ''/'' \<notin> set (slug_of_path p)"
  unfolding slug_of_path_alt by (rule takeWhile_absent) auto

lemma filename_no_slash: "CHR ''/'' \<notin> set (filename_of_path p)"
  using slug_no_slash [of p] by (simp add: filename_of_path_def)

lemma filename_plain: "filename_of_path p \<noteq> [] \<and> filename_of_path p \<noteq> ''.''"
proof -
  have "3 \<le> length (filename_of_path p)"
    unfolding filename_of_path_def by simp
  then show ?thesis by auto
qed

lemma path_parts_plain:
  assumes "s \<noteq> []" "CHR ''/'' \<notin> set s" "s \<noteq> ''.''"
  shows "path_parts s = [s]"
proof -
  have sp: "str_split CHR ''/'' s = [s]"
    using assms(2) by (rule str_split_absent)
  have "hd s \<noteq> CHR ''/''"
    using assms(1,2) by (cases s) auto
  then show ?thesis
    unfolding path_parts_def sp using assms(1,3) by simp
qed

lemma path_join_filename: "path_join d (filename_of_path p) = d @ [filename_of_path p]"
proof -
  let ?f = "filename_of_path p"
  have ne: "?f \<noteq> []" and nd: "?f \<noteq> ''.''"
    using filename_plain [of p] by blast+
  have ns: "CHR ''/'' \<notin> set ?f"
    by (rule filename_no_slash)
  have "hd ?f \<noteq> CHR ''/''"
    using ne ns by (cases ?f) auto
  moreover have "path_parts ?f = [?f]"
    using ne ns nd by (rule path_parts_plain)
  ultimately show ?thesis
    unfolding path_join_def by simp
qed

lemma process_one_wf:
  assumes pr: "parsed_record up r = Some (u, parsed)"
  shows "\<exists>st'. process_one up run fmt dir n i r st = Inr st'
    \<and> invoked (world_of st') = invoked (world_of st) @ [command_for up fmt dir r]
    \<and> dirs (world_of st') = dirs (world_of st)
    \<and> files (world_of st') = files (world_of st)
    \<and> processed_count st' = processed_count st
         + (if run (length (invoked (world_of st))) (command_for up fmt dir r) = None then 1 else 0)
    \<and> error_count st' = error_count st
         + (if run (length (invoked (world_of st))) (command_for up fmt dir r) = None then 0 else 1)
    \<and> (\<exists>l1 l2. printed (world_of st') = printed (world_of st) @ [l1, l2]
          \<and> (\<forall>e. run (length (invoked (world_of st))) (command_for up fmt dir r) = Some e
                 \<longrightarrow> l2 = failure_line u e))"
proof -
  obtain v where v: "py_item r ''url'' = Inr v" "py_urlparse up v = Inr (u, parsed)"
    using pr by (auto simp: parsed_record_def split: sum.splits)
  have cmd: "command_for up fmt dir r = crwl_command u fmt (dir @ [filename_of_path (path parsed)])"
    using pr by (simp add: command_for_def)
  show ?thesis
  proof (cases "run (length (invoked (world_of st))) (command_for up fmt dir r)")
    case None
    then show ?thesis
      using v cmd
      by (simp add: process_one_def Let_def path_join_filename py_print_def)
  next
    case (Some e)
    then show ?thesis
      using v cmd
      by (cases e) (simp_all add: process_one_def Let_def path_join_filename py_print_def failure_line_def)
  qed
qed

lemma process_one_not_wf:
  assumes "parsed_record up r = None"
  shows "\<exists>e. process_one up run fmt dir n i r st = Inl e"
  using assms by (auto simp: parsed_record_def process_one_def split: sum.splits)

lemma failures_Nil: "failures run base [] = 0"
  by (simp add: failures_def)

lemma failures_Cons:
  "failures run base (c # cs) = (if run base c = None then 0 else 1) + failures run (Suc base) cs"
proof -
  have "[0..<length (c # cs)] = 0 # map Suc [0..<length cs]"
    by (simp add: upt_conv_Cons map_Suc_upt del: upt_Suc)
  then show ?thesis
    by (simp add: failures_def filter_map comp_def del: upt_Suc)
qed

lemma well_formed_parsed: "well_formed up r \<Longrightarrow> \<exists>u parsed. parsed_record up r = Some (u, parsed)"
  by (auto simp: well_formed_def)

lemma process_loop_wf:
  assumes "list_all (well_formed up) items"
  shows "\<exists>st'. process_loop up run fmt dir n i items st = (None, st')
    \<and> invoked (world_of st') = invoked (world_of st) @ map (command_for up fmt dir) items
    \<and> dirs (world_of st') = dirs (world_of st)
    \<and> files (world_of st') = files (world_of st)
    \<and> processed_count st' + error_count st'
         = processed_count st + error_count st + length items
    \<and> error_count st' = error_count st
         + failures run (length (invoked (world_of st))) (map (command_for up fmt dir) items)"
  using assms
proof (induction items arbitrary: st i)
  case Nil
  then show ?case by (simp add: failures_Nil)
next
  case (Cons r rest)
  from Cons.prems have "well_formed up r" by simp
  then obtain u parsed where pr: "parsed_record up r = Some (u, parsed)"
    using well_formed_parsed by blast
  from process_one_wf [OF pr, of run fmt dir n i st]
  obtain st1 where one: "process_one up run fmt dir n i r st = Inr st1"
    and inv1: "invoked (world_of st1) = invoked (world_of st) @ [command_for up fmt dir r]"
    and d1: "dirs (world_of st1) = dirs (world_of st)"
    and f1: "files (world_of st1) = files (world_of st)"
    and p1: "processed_count st1 = processed_count st
         + (if run (length (invoked (world_of st))) (command_for up fmt dir r) = None then 1 else 0)"
    and e1: "error_count st1 = error_count st
         + (if run (length (invoked (world_of st))) (command_for up fmt dir r) = None then 0 else 1)"
    by blast
  from Cons.prems have "list_all (well_formed up) rest" by simp
  from Cons.IH [OF this, of "Suc i" st1]
  obtain st' where rest: "process_loop up run fmt dir n (Suc i) rest st1 = (None, st')"
    and inv': "invoked (world_of st') = invoked (world_of st1) @ map (command_for up fmt dir) rest"
    and d': "dirs (world_of st') = dirs (world_of st1)"
    and f': "files (world_of st') = files (world_of st1)"
    and s': "processed_count st' + error_count st'
         = processed_count st1 + error_count st1 + length rest"
    and e': "error_count st' = error_count st1
         + failures run (length (invoked (world_of st1))) (map (command_for up fmt dir) rest)"
    by blast
  have "process_loop up run fmt dir n i (r # rest) st = (None, st')"
    using one rest by simp
  moreover have "invoked (world_of st') = invoked (world_of st) @ map (command_for up fmt dir) (r # rest)"
    using inv' inv1 by simp
  moreover have "processed_count st' + error_count st'
         = processed_count st + error_count st + length (r # rest)"
    using s' p1 e1 by simp
  moreover have "error_count st' = error_count st
         + failures run (length (invoked (world_of st))) (map (command_for up fmt dir) (r # rest))"
    using e' e1 inv1 by (simp add: failures_Cons)
  ultimately show ?case
    using d' d1 f' f1 by simp
qed

lemma process_one_Inr_parsed:
  assumes "process_one up run fmt dir n i r st = Inr st'"
  shows "\<exists>u parsed. parsed_record up r = Some (u, parsed)"
proof (cases "parsed_record up r")
  case None
  from process_one_not_wf [OF this, of run fmt dir n i st] assms show ?thesis by auto
next
  case (Some x)
  then show ?thesis by (cases x) simp
qed

lemma process_one_counts:
  assumes "process_one up run fmt dir n i r st = Inr st'"
  shows "processed_count st' + error_count st' = processed_count st + error_count st + 1"
proof -
  from process_one_Inr_parsed [OF assms] obtain u parsed
    where pr: "parsed_record up r = Some (u, parsed)" by blast
  from process_one_wf [OF pr, of run fmt dir n i st] assms show ?thesis
    by auto
qed

lemma process_loop_counts:
  assumes "process_loop up run fmt dir n i items st = (None, st')"
  shows "processed_count st' + error_count st' = processed_count st + error_count st + length items"
  using assms
proof (induction items arbitrary: st i)
  case Nil
  then show ?case by simp
next
  case (Cons r rest)
  show ?case
  proof (cases "process_one up run fmt dir n i r st")
    case (Inl e)
    with Cons.prems show ?thesis by simp
  next
    case (Inr st1)
    with Cons.prems have "process_loop up run fmt dir n (Suc i) rest st1 = (None, st')"
      by simp
    from Cons.IH [OF this] process_one_counts [OF Inr] show ?thesis by simp
  qed
qed

lemma process_loop_printed_mono:
  "set (printed (world_of st)) \<subseteq> set (printed (world_of (snd (process_loop up run fmt dir n i items st))))"
proof (induction items arbitrary: st i)
  case Nil
  then show ?case by simp
next
  case (Cons r rest)
  show ?case
  proof (cases "process_one up run fmt dir n i r st")
    case (Inl e)
    then show ?thesis by simp
  next
    case (Inr st1)
    from process_one_Inr_parsed [OF Inr] obtain u parsed
      where pr: "parsed_record up r = Some (u, parsed)" by blast
    from process_one_wf [OF pr, of run fmt dir n i st] Inr
    have "set (printed (world_of st)) \<subseteq> set (printed (world_of st1))" by auto
    with Cons.IH [of st1 "Suc i"] Inr show ?thesis by auto
  qed
qed

lemma process_loop_failure_lines:
  assumes "list_all (well_formed up) items" and "k < length items"
    and "parsed_record up (items ! k) = Some (u, parsed)"
    and "run (length (invoked (world_of st)) + k) (command_for up fmt dir (items ! k)) = Some e"
  shows "failure_line u e \<in> set (printed (world_of (snd (process_loop up run fmt dir n i items st))))"
  using assms
proof (induction items arbitrary: st i k)
  case Nil
  then show ?case by simp
next
  case (Cons r rest)
  from Cons.prems(1) have "well_formed up r" by simp
  then obtain u0 parsed0 where pr: "parsed_record up r = Some (u0, parsed0)"
    using well_formed_parsed by blast
  from process_one_wf [OF pr, of run fmt dir n i st]
  obtain st1 l1 l2 where one: "process_one up run fmt dir n i r st = Inr st1"
    and inv1: "invoked (world_of st1) = invoked (world_of st) @ [command_for up fmt dir r]"
    and pr1: "printed (world_of st1) = printed (world_of st) @ [l1, l2]"
    and fl: "\<forall>e. run (length (invoked (world_of st))) (command_for up fmt dir r) = Some e
                 \<longrightarrow> l2 = failure_line u0 e"
    by blast
  from Cons.prems(1) have wfr: "list_all (well_formed up) rest" by simp
  show ?case
  proof (cases k)
    case 0
    with Cons.prems(3) pr have "u = u0" by simp
    with 0 Cons.prems(4) fl have "l2 = failure_line u e" by simp
    with pr1 have "failure_line u e \<in> set (printed (world_of st1))" by simp
    with process_loop_printed_mono [of st1 up run fmt dir n "Suc i" rest] one
    show ?thesis by auto
  next
    case (Suc j)
    with Cons.prems have j: "j < length rest"
      and pj: "parsed_record up (rest ! j) = Some (u, parsed)"
      and rj: "run (length (invoked (world_of st1)) + j) (command_for up fmt dir (rest ! j)) = Some e"
      using inv1 by simp_all
    from Cons.IH [OF wfr j pj rj, of "Suc i"] one show ?thesis by simp
  qed
qed

lemma mkdir_parents_Inr:
  assumes "mkdir_parents p w = Inr w1"
  shows "w1 = w\<lparr>dirs := dirs w \<union> set (prefixes p)\<rparr>"
  using assms by (simp add: mkdir_parents_def split: if_splits)

lemma process_results_wf:
  assumes wf: "list_all (well_formed up) items"
    and dir: "select_output_dir up source_url (PList items) markdown_dir = Inr output_dir"
    and mk: "mkdir_parents output_dir w = Inr w1"
  shows "\<exists>st'. process_results up run (PList items) source_url fmt markdown_dir w
            = (None, py_print (summary_line st') (world_of st'))
    \<and> invoked (world_of st') = invoked w @ map (command_for up fmt output_dir) items
    \<and> dirs (world_of st') = dirs w \<union> set (prefixes output_dir)
    \<and> files (world_of st') = files w
    \<and> processed_count st' + error_count st' = length items
    \<and> error_count st' = failures run (length (invoked w)) (map (command_for up fmt output_dir) items)
    \<and> (\<forall>k u parsed e. k < length items \<longrightarrow> parsed_record up (items ! k) = Some (u, parsed)
          \<longrightarrow> run (length (invoked w) + k) (command_for up fmt output_dir (items ! k)) = Some e
          \<longrightarrow> failure_line u e \<in> set (printed (world_of st')))"
proof -
  define w3 where "w3 = py_print (''Output directory: '' @ path_str output_dir)
      (py_print (''Found '' @ str_nat (length items) @ '' URLs to process'') w1)"
  define st0 where "st0 = \<lparr>processed_count = 0, error_count = 0, world_of = w3\<rparr>"
  have w1: "w1 = w\<lparr>dirs := dirs w \<union> set (prefixes output_dir)\<rparr>"
    using mk by (rule mkdir_parents_Inr)
  have w3: "invoked w3 = invoked w" "dirs w3 = dirs w \<union> set (prefixes output_dir)"
    "files w3 = files w"
    by (simp_all add: w3_def w1 py_print_def)
  from process_loop_wf [OF wf, of run fmt output_dir "length items" 0 st0]
  obtain st' where loop: "process_loop up run fmt output_dir (length items) 0 items st0 = (None, st')"
    and inv: "invoked (world_of st') = invoked (world_of st0) @ map (command_for up fmt output_dir) items"
    and d: "dirs (world_of st') = dirs (world_of st0)"
    and f: "files (world_of st') = files (world_of st0)"
    and s: "processed_count st' + error_count st'
         = processed_count st0 + error_count st0 + length items"
    and e: "error_count st' = error_count st0
         + failures run (length (invoked (world_of st0))) (map (command_for up fmt output_dir) items)"
    by blast
  have res: "process_results up run (PList items) source_url fmt markdown_dir w
            = (None, py_print (summary_line st') (world_of st'))"
    using dir mk loop by (simp add: process_results_def Let_def w3_def st0_def)
  have fl: "failure_line u e \<in> set (printed (world_of st'))"
    if "k < length items" "parsed_record up (items ! k) = Some (u, parsed)"
       "run (length (invoked w) + k) (command_for up fmt output_dir (items ! k)) = Some e"
    for k u parsed e
  proof -
    have r0: "run (length (invoked (world_of st0)) + k) (command_for up fmt output_dir (items ! k)) = Some e"
      using that(3) w3 by (simp add: st0_def)
    have "failure_line u e \<in> set (printed (world_of (snd
        (process_loop up run fmt output_dir (length items) 0 items st0))))"
      using wf that(1,2) r0 by (rule process_loop_failure_lines)
    with loop show ?thesis by simp
  qed
  show ?thesis
    using res inv d f s e w3 fl by (intro exI [of _ st']) (simp add: st0_def)
qed

lemma str_strip_all: "set p \<subseteq> set chars \<Longrightarrow> str_strip chars p = []"
proof -
  assume "set p \<subseteq> set chars"
  then have dw: "dropWhile (\<lambda>c. c \<in> set chars) p = []"
    unfolding dropWhile_eq_Nil_conv by blast
  show ?thesis unfolding str_strip_def dw by simp
qed

lemma filename_index: "set p \<subseteq> {CHR ''/''} \<Longrightarrow> filename_of_path p = ''index.md''"
proof -
  assume "set p \<subseteq> {CHR ''/''}"
  then have "str_strip ''/'' p = []"
    by (intro str_strip_all) simp
  then show ?thesis
    by (simp add: filename_of_path_def slug_of_path_alt)
qed

lemma str_split_append:
  "sep \<notin> set f \<Longrightarrow> \<exists>ys. ys \<noteq> [] \<and> str_split sep (xs @ sep # f) = ys @ [f]"
proof (induction xs)
  case Nil
  then have "str_split sep ([] @ sep # f) = [[]] @ [f]"
    by (simp add: str_split_absent)
  then show ?case by blast
next
  case (Cons x xs)
  then obtain ys where ys: "ys \<noteq> []" "str_split sep (xs @ sep # f) = ys @ [f]"
    by blast
  show ?case
  proof (cases "x = sep")
    case True
    with ys have "str_split sep ((x # xs) @ sep # f) = ([] # ys) @ [f]" by simp
    then show ?thesis by blast
  next
    case False
    with ys have "str_split sep ((x # xs) @ sep # f) = ((x # hd ys) # tl ys) @ [f]"
      by (cases ys) simp_all
    then show ?thesis by blast
  qed
qed

lemma last_str_split_append:
  "sep \<notin> set f \<Longrightarrow> last (str_split sep (xs @ sep # f)) = f"
  using str_split_append [of sep f xs] by auto

lemma str_join_snoc:
  "xs \<noteq> [] \<Longrightarrow> str_join sep (xs @ [f]) = str_join sep xs @ sep @ f"
  by (induction sep xs rule: str_join.induct) auto

lemma output_filename_command:
  assumes "CHR ''/'' \<notin> set f"
  shows "output_filename (crwl_command u fmt (dir @ [f])) = f"
proof -
  have l: "last (crwl_command u fmt (dir @ [f])) = path_str (dir @ [f])"
    by (simp add: crwl_command_def)
  have "last (str_split CHR ''/'' (path_str (dir @ [f]))) = f"
  proof (cases dir)
    case Nil
    with assms have "f \<noteq> ''/''" by auto
    with Nil assms show ?thesis
      by (simp add: path_str_def str_split_absent)
  next
    case (Cons r rest)
    show ?thesis
    proof (cases "r = ''/''")
      case True
      show ?thesis
      proof (cases "rest = []")
        case True
        with \<open>r = ''/''\<close> Cons assms show ?thesis
          using last_str_split_append [of "CHR ''/''" f "[]"]
          by (simp add: path_str_def)
      next
        case False
        then have "str_join ''/'' (rest @ [f]) = str_join ''/'' rest @ ''/'' @ f"
          by (rule str_join_snoc)
        with \<open>r = ''/''\<close> Cons assms show ?thesis
          using last_str_split_append [of "CHR ''/''" f "''/'' @ str_join ''/'' rest"]
          by (simp add: path_str_def)
      qed
    next
      case False
      have "str_join ''/'' (dir @ [f]) = str_join ''/'' dir @ ''/'' @ f"
        using Cons by (intro str_join_snoc) simp
      with False Cons assms show ?thesis
        using last_str_split_append [of "CHR ''/''" f "str_join ''/'' dir"]
        by (simp add: path_str_def)
    qed
  qed
  with l show ?thesis by (simp add: output_filename_def)
qed

lemma sample_well_formed: "list_all (well_formed urlparse) sample_results"
  by code_simp


lemma sample_mkdir:
  "mkdir_parents [''markdown_output'', ''example.com''] sample_world
   = Inr (sample_world\<lparr>dirs := {[], [''markdown_output''], [''markdown_output'', ''example.com'']}\<rparr>)"
  by (auto simp: mkdir_parents_def sample_world_def)

lemma sample_commands:
  "map (command_for urlparse ''md-fit'' [''markdown_output'', ''example.com'']) sample_results =
   [[''crwl'', ''crawl'', ''https://www.example.com/docs/v1.2/intro.html'', ''-o'', ''md-fit'',
     ''-O'', ''markdown_output/example.com/docs_v1.md''],
    [''crwl'', ''crawl'', ''https://www.example.com/'', ''-o'', ''md-fit'',
     ''-O'', ''markdown_output/example.com/index.md'']]"
  by code_simp

section \<open>The claims\<close>









lemma command_for_filename:
  assumes "parsed_record up r = Some (u, parsed)"
  shows "output_filename (command_for up fmt dir r) = filename_of_path (path parsed)"
  using assms filename_no_slash [of "path parsed"]
  by (simp add: command_for_def output_filename_command)

lemma parsed_record_cong:
  "py_item r1 ''url'' = py_item r2 ''url'' \<Longrightarrow> parsed_record up r1 = parsed_record up r2"
  by (simp add: parsed_record_def)

lemma example_root_parsed:
  "parsed_record urlparse (PDict [(''url'', PStr ''https://example.com/'')])
     = Some (''https://example.com/'', \<lparr>netloc = ''example.com'', path = ''/''\<rparr>)"
  by code_simp

lemma example_bare_parsed:
  "parsed_record urlparse (PDict [(''url'', PStr ''https://example.com'')])
     = Some (''https://example.com'', \<lparr>netloc = ''example.com'', path = ''''\<rparr>)"
  by code_simp

text \<open>
  C9. For every result record whose URL has a path that is empty or made of slashes
  only, the loop of \<open>process_urls\<close> runs the converter with the output file
  \<open>index.md\<close> of the output directory.
\<close>

theorem slash_only_path_gives_index_md:
  assumes "parsed_record up r = Some (u, parsed)"
    and "set (path parsed) \<subseteq> {CHR ''/''}"
  shows "\<exists>st'. process_one up run fmt dir n i r st = Inr st'
    \<and> invoked (world_of st') = invoked (world_of st) @ [crwl_command u fmt (dir @ [''index.md''])]
    \<and> output_filename (last (invoked (world_of st'))) = ''index.md''"
proof -
  have f: "filename_of_path (path parsed) = ''index.md''"
    using assms(2) by (rule filename_index)
  from process_one_wf [OF assms(1), of run fmt dir n i st]
  obtain st' where one: "process_one up run fmt dir n i r st = Inr st'"
    and inv: "invoked (world_of st') = invoked (world_of st) @ [command_for up fmt dir r]"
    by blast
  have c: "command_for up fmt dir r = crwl_command u fmt (dir @ [''index.md''])"
    using assms(1) f by (simp add: command_for_def)
  have "output_filename (command_for up fmt dir r) = ''index.md''"
    using command_for_filename [OF assms(1)] f by simp
  with one inv c show ?thesis by simp
qed

theorem slash_only_path_gives_index_md_witness:
  "(\<exists>st'. process_one urlparse always_succeeds ''md'' [''markdown_output'', ''example.com''] 2 0
            (PDict [(''url'', PStr ''https://example.com/'')])
            \<lparr>processed_count = 0, error_count = 0, world_of = sample_world\<rparr> = Inr st'
      \<and> invoked (world_of st')
          = [[''crwl'', ''crawl'', ''https://example.com/'', ''-o'', ''md'', ''-O'',
              ''markdown_output/example.com/index.md'']])
   \<and> (\<exists>st'. process_one urlparse always_succeeds ''md'' [''markdown_output'', ''example.com''] 2 1
            (PDict [(''url'', PStr ''https://example.com'')])
            \<lparr>processed_count = 0, error_count = 0, world_of = sample_world\<rparr> = Inr st'
      \<and> invoked (world_of st')
          = [[''crwl'', ''crawl'', ''https://example.com'', ''-o'', ''md'', ''-O'',
              ''markdown_output/example.com/index.md'']])"
  using slash_only_path_gives_index_md [OF example_root_parsed, of always_succeeds "''md''"
          "[''markdown_output'', ''example.com'']" 2 0
          "\<lparr>processed_count = 0, error_count = 0, world_of = sample_world\<rparr>"]
        slash_only_path_gives_index_md [OF example_bare_parsed, of always_succeeds "''md''"
          "[''markdown_output'', ''example.com'']" 2 1
          "\<lparr>processed_count = 0, error_count = 0, world_of = sample_world\<rparr>"]
  by (simp add: sample_world_def crwl_command_def path_str_def, blast)

text \<open>
  C7. The name of the output file is a function of the URL alone: two iterations of the
  loop of \<open>process_urls\<close> on records with the same \<open>url\<close>, whatever the other fields
  of the records, their positions, the counters, the world, the converter's outcomes,
  the output format and the output directory are, give the converter the same output
  filename.
\<close>

theorem filename_depends_on_url_only:
  assumes "well_formed up r1" and "py_item r1 ''url'' = py_item r2 ''url''"
  shows "\<exists>s1 s2. process_one up run1 fmt1 dir1 n1 i1 r1 st1 = Inr s1
    \<and> process_one up run2 fmt2 dir2 n2 i2 r2 st2 = Inr s2
    \<and> output_filename (last (invoked (world_of s1)))
        = output_filename (last (invoked (world_of s2)))"
proof -
  from assms(1) obtain u parsed where p1: "parsed_record up r1 = Some (u, parsed)"
    using well_formed_parsed by blast
  with assms(2) have p2: "parsed_record up r2 = Some (u, parsed)"
    using parsed_record_cong [of r1 r2 up] by simp
  from process_one_wf [OF p1, of run1 fmt1 dir1 n1 i1 st1]
  obtain s1 where one1: "process_one up run1 fmt1 dir1 n1 i1 r1 st1 = Inr s1"
    and inv1: "invoked (world_of s1) = invoked (world_of st1) @ [command_for up fmt1 dir1 r1]"
    by blast
  from process_one_wf [OF p2, of run2 fmt2 dir2 n2 i2 st2]
  obtain s2 where one2: "process_one up run2 fmt2 dir2 n2 i2 r2 st2 = Inr s2"
    and inv2: "invoked (world_of s2) = invoked (world_of st2) @ [command_for up fmt2 dir2 r2]"
    by blast
  have "output_filename (last (invoked (world_of s1))) = filename_of_path (path parsed)"
    using inv1 command_for_filename [OF p1] by simp
  moreover have "output_filename (last (invoked (world_of s2))) = filename_of_path (path parsed)"
    using inv2 command_for_filename [OF p2] by simp
  ultimately show ?thesis using one1 one2 by simp
qed

lemma sample_first_well_formed: "well_formed urlparse (sample_results ! 0)"
  by code_simp

lemma same_url: "py_item (sample_results ! 0) ''url''
    = py_item (PDict [(''title'', PNone), (''url'', PStr ''https://www.example.com/docs/v1.2/intro.html'')]) ''url''"
  by code_simp

theorem filename_depends_on_url_only_witness:
  "\<exists>s1 s2. process_one urlparse first_fails ''md-fit'' [''markdown_output'', ''example.com''] 2 0
              (sample_results ! 0)
              \<lparr>processed_count = 0, error_count = 0, world_of = sample_world\<rparr> = Inr s1
    \<and> process_one urlparse always_succeeds ''md'' [''out''] 7 3
         (PDict [(''title'', PNone), (''url'', PStr ''https://www.example.com/docs/v1.2/intro.html'')])
         \<lparr>processed_count = 2, error_count = 1, world_of = sample_world\<rparr> = Inr s2
    \<and> output_filename (last (invoked (world_of s1)))
        = output_filename (last (invoked (world_of s2)))"
  using filename_depends_on_url_only [OF sample_first_well_formed same_url]
  by blast

text \<open>
  C1. What the code computes where the claim fails: for the URL
  \<open>https://www.example.com/docs/v1.2/intro.html\<close> the slug is cut at the first dot of
  the whole path, so the output file is \<open>docs_v1.md\<close>; the name the claim describes,
  with only the extension \<open>.html\<close> removed, is \<open>docs_v1.2_intro.md\<close>. The page
  \<open>/docs/v1.3/setup.html\<close> gets the same file name \<open>docs_v1.md\<close>.
\<close>

theorem filename_cut_at_first_dot:
  "parsed_record urlparse (sample_results ! 0)
     = Some (''https://www.example.com/docs/v1.2/intro.html'',
             \<lparr>netloc = ''www.example.com'', path = ''/docs/v1.2/intro.html''\<rparr>)
   \<and> command_for urlparse ''md-fit'' [''markdown_output'', ''example.com''] (sample_results ! 0)
       = [''crwl'', ''crawl'', ''https://www.example.com/docs/v1.2/intro.html'', ''-o'', ''md-fit'',
          ''-O'', ''markdown_output/example.com/docs_v1.md'']
   \<and> filename_of_path ''/docs/v1.2/intro.html'' = ''docs_v1.md''
   \<and> spec_filename_of_path ''/docs/v1.2/intro.html'' = ''docs_v1.2_intro.md''
   \<and> filename_of_path ''/docs/v1.3/setup.html'' = ''docs_v1.md''"
  by code_simp

lemma select_output_dir_source:
  assumes "s \<noteq> []" and "up s = Inr parsed_source"
    and "domain_of_netloc (netloc parsed_source) \<noteq> []"
  shows "select_output_dir up (Some s) results markdown_dir
    = Inr (path_join (path_parts markdown_dir) (domain_of_netloc (netloc parsed_source)))"
  using assms
  by (simp add: select_output_dir_def source_domain_def fallback_domain_def output_dir_of_def)

lemma select_output_dir_fallback:
  assumes "source_domain up source_url = Inr None \<or> source_domain up source_url = Inr (Some [])"
    and "parsed_record up r = Some (u, parsed_first)"
  shows "select_output_dir up source_url (PList (r # rest)) markdown_dir
    = Inr (if domain_of_netloc (netloc parsed_first) \<noteq> []
           then path_join (path_parts markdown_dir) (domain_of_netloc (netloc parsed_first))
           else path_parts markdown_dir)"
proof -
  obtain v where v: "py_item r ''url'' = Inr v" "py_urlparse up v = Inr (u, parsed_first)"
    using assms(2) by (auto simp: parsed_record_def split: sum.splits)
  from assms(1) show ?thesis
    using v by (auto simp: select_output_dir_def fallback_domain_def output_dir_of_def)
qed

lemma select_output_dir_none:
  assumes "source_domain up source_url = Inr None \<or> source_domain up source_url = Inr (Some [])"
  shows "select_output_dir up source_url (PList []) markdown_dir = Inr (path_parts markdown_dir)"
  using assms by (auto simp: select_output_dir_def fallback_domain_def output_dir_of_def)

lemma prefixes_self: "p \<in> set (prefixes p)"
  by (simp add: in_set_prefixes)

lemma schemeless_source:
  "urlparse ''python.org/doc'' = Inr \<lparr>netloc = '''', path = ''python.org/doc''\<rparr>"
  by code_simp

lemma schemeless_output_dir:
  "select_output_dir urlparse (Some ''python.org/doc'') (PList sample_results) ''markdown_output''
     = Inr [''markdown_output'', ''example.com'']"
  by code_simp

lemma domain_of_empty_netloc:
  "path_join (path_parts ''markdown_output'') (domain_of_netloc '''') = [''markdown_output'']"
  by code_simp

text \<open>
  C6, as stated, fails: the source URL \<open>python.org/doc\<close>, written without a scheme, has
  an empty netloc and so an empty domain; the results are then written into the
  directory named after the domain of the first result, \<open>markdown_output/example.com\<close>,
  not into \<open>markdown_output\<close> joined with the (empty) domain of the source URL.
\<close>

theorem output_dir_not_from_source_url:
  "urlparse ''python.org/doc'' = Inr \<lparr>netloc = '''', path = ''python.org/doc''\<rparr>
   \<and> path_join (path_parts ''markdown_output'') (domain_of_netloc '''') = [''markdown_output'']
   \<and> fst (process_results urlparse always_succeeds (PList sample_results)
        (Some ''python.org/doc'') ''md-fit'' ''markdown_output'' sample_world) = None
   \<and> invoked (snd (process_results urlparse always_succeeds (PList sample_results)
        (Some ''python.org/doc'') ''md-fit'' ''markdown_output'' sample_world))
      = [[''crwl'', ''crawl'', ''https://www.example.com/docs/v1.2/intro.html'', ''-o'', ''md-fit'',
          ''-O'', ''markdown_output/example.com/docs_v1.md''],
         [''crwl'', ''crawl'', ''https://www.example.com/'', ''-o'', ''md-fit'',
          ''-O'', ''markdown_output/example.com/index.md'']]"
proof -
  from process_results_wf [OF sample_well_formed schemeless_output_dir sample_mkdir,
         of always_succeeds "''md-fit''"]
  obtain st' where "process_results urlparse always_succeeds (PList sample_results)
        (Some ''python.org/doc'') ''md-fit'' ''markdown_output'' sample_world
            = (None, py_print (summary_line st') (world_of st'))"
    and "invoked (world_of st') = invoked sample_world
       @ map (command_for urlparse ''md-fit'' [''markdown_output'', ''example.com'']) sample_results"
    by blast
  then show ?thesis
    using schemeless_source domain_of_empty_netloc
    by (simp add: py_print_def sample_commands sample_world_def)
qed

text \<open>
  C6, amended. For every run of \<open>process_urls\<close> on result records with a source URL
  whose domain (the netloc with every \<open>www.\<close> removed, cut at the first \<open>:\<close>) is not
  empty, the output file of every command lies in the directory that is the markdown
  output directory joined with that domain, and this directory exists afterwards: it is
  created, with its missing ancestors, unless a regular file is in the way.
\<close>

theorem output_paths_lie_in_domain_directory:
  assumes "list_all (well_formed up) items"
    and "s \<noteq> []" and "up s = Inr parsed_source"
    and "domain_of_netloc (netloc parsed_source) \<noteq> []"
    and "output_dir = path_join (path_parts markdown_dir) (domain_of_netloc (netloc parsed_source))"
    and "mkdir_parents output_dir w = Inr w1"
  shows "fst (process_results up run (PList items) (Some s) fmt markdown_dir w) = None
    \<and> invoked (snd (process_results up run (PList items) (Some s) fmt markdown_dir w))
        = invoked w @ map (command_for up fmt output_dir) items
    \<and> output_dir \<in> dirs (snd (process_results up run (PList items) (Some s) fmt markdown_dir w))"
proof -
  have dir: "select_output_dir up (Some s) (PList items) markdown_dir = Inr output_dir"
    using assms(2-5) by (simp add: select_output_dir_source)
  from process_results_wf [OF assms(1) dir assms(6), of run fmt]
  obtain st' where "process_results up run (PList items) (Some s) fmt markdown_dir w
            = (None, py_print (summary_line st') (world_of st'))"
    and "invoked (world_of st') = invoked w @ map (command_for up fmt output_dir) items"
    and "dirs (world_of st') = dirs w \<union> set (prefixes output_dir)"
    by blast
  then show ?thesis
    using prefixes_self [of output_dir] by (simp add: py_print_def)
qed

lemma sample_source:
  "urlparse ''https://www.example.com:8080/'' = Inr \<lparr>netloc = ''www.example.com:8080'', path = ''/''\<rparr>"
  by code_simp

lemma sample_source_domain:
  "domain_of_netloc ''www.example.com:8080'' = ''example.com''"
  by code_simp

lemma sample_source_dir:
  "path_join (path_parts ''markdown_output'') ''example.com'' = [''markdown_output'', ''example.com'']"
  by code_simp

theorem output_paths_lie_in_domain_directory_witness:
  "fst (process_results urlparse first_fails (PList sample_results)
          (Some ''https://www.example.com:8080/'') ''md-fit'' ''markdown_output'' sample_world) = None
   \<and> invoked (snd (process_results urlparse first_fails (PList sample_results)
          (Some ''https://www.example.com:8080/'') ''md-fit'' ''markdown_output'' sample_world))
      = [[''crwl'', ''crawl'', ''https://www.example.com/docs/v1.2/intro.html'', ''-o'', ''md-fit'',
          ''-O'', ''markdown_output/example.com/docs_v1.md''],
         [''crwl'', ''crawl'', ''https://www.example.com/'', ''-o'', ''md-fit'',
          ''-O'', ''markdown_output/example.com/index.md'']]
   \<and> [''markdown_output'', ''example.com'']
        \<in> dirs (snd (process_results urlparse first_fails (PList sample_results)
          (Some ''https://www.example.com:8080/'') ''md-fit'' ''markdown_output'' sample_world))"
  using output_paths_lie_in_domain_directory
          [where up = urlparse and items = sample_results and s = "''https://www.example.com:8080/''"
             and parsed_source = "\<lparr>netloc = ''www.example.com:8080'', path = ''/''\<rparr>"
             and output_dir = "[''markdown_output'', ''example.com'']"
             and markdown_dir = "''markdown_output''" and w = sample_world
             and run = first_fails and fmt = "''md-fit''",
           OF sample_well_formed _ sample_source _ _ sample_mkdir]
  by (simp add: sample_source_domain sample_source_dir sample_commands sample_world_def)

lemma main_returns: "fst (main up run arun a w) = None"
  by (auto simp: main_def Let_def split: sum.splits option.splits prod.splits)

lemma main_process_mode:
  assumes "mode a = ''process''" and "path_exists (path_parts (results_file a)) w"
  shows "main up run arun a w =
     (case process_urls up run (results_file a) (start_url a) (arg_output a) DEFAULT_MARKDOWN_DIR
             (py_print (''Processing existing results from: '' @ results_file a) w) of
        (None, w2) \<Rightarrow> (None, py_print (CHR 0x0A # ''Crawl4AI processing completed successfully!'') w2)
      | (Some e, w2) \<Rightarrow> (None, py_print (processing_error_line e) w2))"
proof -
  have "path_exists (path_parts (results_file a))
          (py_print (''Processing existing results from: '' @ results_file a) w)"
    using assms(2) by (simp add: path_exists_def py_print_def)
  with assms(1) show ?thesis
    unfolding main_def Let_def by simp
qed

lemma main_crawl_mode:
  assumes m: "mode a = ''crawl'' \<or> mode a = ''both''" and u: "start_url a = Some s" and s: "s \<noteq> []"
  shows "main up run arun a w =
     (case run_crawler arun s (max_depth a) (max_pages a) (include_external a) (arg_keywords a) of
        Inl e \<Rightarrow> (None, py_print (processing_error_line e)
                   (py_print (''Max depth: '' @ str_int (max_depth a) @ '', Max pages: ''
                              @ str_int (max_pages a))
                      (py_print (''Starting deep crawl of '' @ the (start_url a)) w)))
      | Inr results \<Rightarrow>
          (case save_results (PList results) (results_file a) (after_crawl a (length results) w) of
             Inl e \<Rightarrow> (None, py_print (processing_error_line e) (after_crawl a (length results) w))
           | Inr (saved, w4) \<Rightarrow>
               if mode a = ''both'' \<and> arg_output a \<noteq> ''json'' then
                 (case process_urls up run (results_file a) (start_url a) (arg_output a)
                         DEFAULT_MARKDOWN_DIR
                         (py_print (''Processing URLs to '' @ arg_output a @ '' format...'') w4) of
                    (None, w6) \<Rightarrow>
                      (None, py_print (CHR 0x0A # ''Crawl4AI process completed successfully!'') w6)
                  | (Some e, w6) \<Rightarrow> (None, py_print (processing_error_line e) w6))
               else (None, py_print (CHR 0x0A # ''Crawl4AI process completed successfully!'') w4)))"
proof -
  have np: "mode a \<noteq> ''process''" using m by auto
  have inm: "mode a \<in> {''crawl'', ''both''}" using m by auto
  have nn: "(Some s = None \<or> Some s = Some []) = False" using s by simp
  show ?thesis
    unfolding main_def after_crawl_def Let_def
    by (simp only: np inm nn u if_False if_True simp_thms option.sel)
qed

end
